theory Spec2Isabelle
  imports Complex_Main "HOL-Library.Sublist" "HOL-Library.Log_Nat"
begin

section \<open>JavaScript values\<close>

text \<open>
  The component is untyped JavaScript. Where a claim depends on what an arbitrary
  argument or a parsed JSON document may be, values are modelled by \<open>jsval\<close>.
  Numbers are the rationals (every finite double is one); an object is the list of its
  own properties in enumeration order.
\<close>

datatype jsval =
    Undefined
  | Null
  | Bool bool
  | Num rat
  | Str string
  | Arr "jsval list"
  | Obj "(string \<times> jsval) list"

text \<open>
  Truthiness as \<^verbatim>\<open>!x\<close>, \<^verbatim>\<open>&&\<close> and \<^verbatim>\<open>||\<close> see it, and the property
  read \<^verbatim>\<open>x.k\<close> on a value that is neither null nor undefined (every read in the
  modelled code is guarded so). None of the names read this way is a member of a
  built-in prototype, so a missing key reads as undefined.
\<close>

fun truthy :: "jsval \<Rightarrow> bool" where
  "truthy Undefined = False"
| "truthy Null = False"
| "truthy (Bool b) = b"
| "truthy (Num n) = (n \<noteq> 0)"
| "truthy (Str s) = (s \<noteq> [])"
| "truthy (Arr xs) = True"
| "truthy (Obj ps) = True"

fun get :: "jsval \<Rightarrow> string \<Rightarrow> jsval" where
  "get (Obj ps) k = (case map_of ps k of Some v \<Rightarrow> v | None \<Rightarrow> Undefined)"
| "get v k = Undefined"

fun has_key :: "jsval \<Rightarrow> string \<Rightarrow> bool" where
  "has_key (Obj ps) k = (k \<in> fst ` set ps)"
| "has_key v k = False"

section \<open>inputMapping.js: core identifiers\<close>

text \<open>
  \<^verbatim>\<open>export function toCoreId(buttonName, player = 1) {
    return player === 2 ? `P2_${buttonName}` : buttonName; }\<close>
  The default parameter replaces an omitted (undefined) argument by the number 1;
  \<^verbatim>\<open>===\<close> is true for the number 2 only.
\<close>

definition toCoreId :: "string \<Rightarrow> jsval \<Rightarrow> string" where
  "toCoreId buttonName player_arg =
     (let player = (if player_arg = Undefined then Num 1 else player_arg)
      in if player = Num 2 then ''P2_'' @ buttonName else buttonName)"

section \<open>EmulatorScreen: control mappings and their store\<close>

text \<open>
  The built-in bindings of \<^verbatim>\<open>EmulatorScreen(fixes 2p).jsx\<close> (the same literal is in
  \<^verbatim>\<open>EmulatorScreen.jsx\<close>): per player, logical control to keyboard code.
\<close>

definition defaultMappings_p1 :: "(string \<times> jsval) list" where
  "defaultMappings_p1 =
    [(''up'', Obj [(''code'', Str ''ArrowUp'')]),
     (''left'', Obj [(''code'', Str ''ArrowLeft'')]),
     (''right'', Obj [(''code'', Str ''ArrowRight'')]),
     (''down'', Obj [(''code'', Str ''ArrowDown'')]),
     (''a'', Obj [(''code'', Str ''KeyK'')]),
     (''b'', Obj [(''code'', Str ''KeyJ'')]),
     (''x'', Obj [(''code'', Str ''KeyI'')]),
     (''y'', Obj [(''code'', Str ''KeyU'')]),
     (''l'', Obj [(''code'', Str ''KeyQ'')]),
     (''r'', Obj [(''code'', Str ''KeyE'')]),
     (''start'', Obj [(''code'', Str ''Enter'')]),
     (''select'', Obj [(''code'', Str ''ShiftLeft'')])]"

definition defaultMappings_p2 :: "(string \<times> jsval) list" where
  "defaultMappings_p2 =
    [(''up'', Obj [(''code'', Str ''KeyW'')]),
     (''left'', Obj [(''code'', Str ''KeyA'')]),
     (''right'', Obj [(''code'', Str ''KeyD'')]),
     (''down'', Obj [(''code'', Str ''KeyS'')]),
     (''a'', Obj [(''code'', Str ''KeyI'')]),
     (''b'', Obj [(''code'', Str ''KeyU'')]),
     (''x'', Obj [(''code'', Str ''KeyY'')]),
     (''y'', Obj [(''code'', Str ''KeyT'')]),
     (''l'', Obj [(''code'', Str ''KeyR'')]),
     (''r'', Obj [(''code'', Str ''KeyF'')]),
     (''start'', Obj [(''code'', Str ''KeyO'')]),
     (''select'', Obj [(''code'', Str ''KeyP'')])]"

definition defaultMappings :: jsval where
  "defaultMappings = Obj [(''p1'', Obj defaultMappings_p1), (''p2'', Obj defaultMappings_p2)]"

subsection \<open>Keyboard dispatch\<close>

text \<open>
  \<^verbatim>\<open>onKeyDown\<close> / \<^verbatim>\<open>onKeyUp\<close> outside capture mode: for each player in the order
  p1, p2 and each control of \<^verbatim>\<open>mappings[player] || {}\<close>, an event is dispatched when
  \<^verbatim>\<open>map[control] && map[control].code === e.code\<close>. The controls are the keys of
  the player's entry, which is taken to be an object (the index keys of an array or a
  string are not modelled).
\<close>

datatype transition = Down | Up

record input_event =
  control :: string
  ttype :: transition
  player :: string

fun own_props :: "jsval \<Rightarrow> (string \<times> jsval) list" where
  "own_props (Obj ps) = ps"
| "own_props v = []"

definition bound_controls :: "jsval \<Rightarrow> string \<Rightarrow> string \<Rightarrow> string list" where
  "bound_controls mappings pl code =
     (let m = (if truthy (get mappings pl) then get mappings pl else Obj [])
      in [c. (c, b) \<leftarrow> own_props m, truthy b \<and> get b ''code'' = Str code])"

definition onKey :: "transition \<Rightarrow> jsval \<Rightarrow> string \<Rightarrow> input_event list" where
  "onKey t mappings code =
     concat (map (\<lambda>pl. map (\<lambda>c. \<lparr>control = c, ttype = t, player = pl\<rparr>)
                           (bound_controls mappings pl code))
                 [''p1'', ''p2''])"

text \<open>The keyboard codes a player's mapping binds.\<close>

definition player_codes :: "jsval \<Rightarrow> string \<Rightarrow> string list" where
  "player_codes mappings pl =
     [c. (k, b) \<leftarrow> own_props (get mappings pl), truthy b, Str c \<leftarrow> [get b ''code'']]"

subsection \<open>The persisted record\<close>

text \<open>
  The record lives under one key of the browser's local storage as JSON text. The text
  is represented by what \<^verbatim>\<open>getItem\<close> and \<^verbatim>\<open>JSON.parse\<close> make of it: no item
  (null), the empty string, a text on which reading or parsing throws, or the parsed
  value. \<^verbatim>\<open>setItem\<close> may throw (quota, storage disabled); the effect catches that and
  leaves the store as it was.
\<close>

datatype stored = Missing | EmptyText | Malformed | Json jsval

record storage =
  item :: stored
  accepts_writes :: bool

text \<open>
  \<^verbatim>\<open>JSON.parse(JSON.stringify(v))\<close> of the platform: properties holding undefined are
  dropped, undefined array elements become null, everything else is kept in order.
  For undefined itself \<^verbatim>\<open>stringify\<close> yields undefined, which is stored as the text
  \<^verbatim>\<open>undefined\<close> and does not parse.
\<close>

fun json_norm :: "jsval \<Rightarrow> jsval" where
  "json_norm (Arr xs) = Arr (map (\<lambda>x. if x = Undefined then Null else json_norm x) xs)"
| "json_norm (Obj ps) =
     Obj (map (\<lambda>kv. (fst kv, json_norm (snd kv))) (filter (\<lambda>kv. snd kv \<noteq> Undefined) ps))"
| "json_norm v = v"

definition written :: "jsval \<Rightarrow> stored" where
  "written m = (if m = Undefined then Malformed else Json (json_norm m))"

text \<open>
  \<^verbatim>\<open>useEffect(() => { try { localStorage.setItem('snes_mappings_v1',
  JSON.stringify(mappings)); } catch (e) { console.warn(...) } }, [mappings])\<close>
\<close>

definition persist :: "jsval \<Rightarrow> storage \<Rightarrow> storage" where
  "persist mappings st = (if accepts_writes st then st\<lparr>item := written mappings\<rparr> else st)"

text \<open>
  The initializer of the \<^verbatim>\<open>mappings\<close> state:
  \<^verbatim>\<open>const raw = localStorage.getItem('snes_mappings_v1');
  if (!raw) return defaultMappings;
  const parsed = JSON.parse(raw);
  if (parsed && parsed.p1 && parsed.p2) return parsed;
  return { p1: parsed, p2: defaultMappings.p2 };\<close>
  with \<^verbatim>\<open>catch (e) { return defaultMappings; }\<close> around it.
\<close>

definition initial_mappings :: "storage \<Rightarrow> jsval" where
  "initial_mappings st =
     (case item st of
        Missing \<Rightarrow> defaultMappings
      | EmptyText \<Rightarrow> defaultMappings
      | Malformed \<Rightarrow> defaultMappings
      | Json parsed \<Rightarrow>
          if truthy parsed \<and> truthy (get parsed ''p1'') \<and> truthy (get parsed ''p2'')
          then parsed
          else Obj [(''p1'', parsed), (''p2'', get defaultMappings ''p2'')])"

text \<open>
  A two-player mapping as the data model has it: an object with exactly the keys p1 and
  p2, each an object from control names to a binding, a binding being null (cleared) or
  \<^verbatim>\<open>{code: <string>}\<close>.
\<close>

fun wf_binding :: "jsval \<Rightarrow> bool" where
  "wf_binding Null = True"
| "wf_binding (Obj [(k, Str c)]) = (k = ''code'')"
| "wf_binding v = False"

fun wf_player :: "jsval \<Rightarrow> bool" where
  "wf_player (Obj ps) = (distinct (map fst ps) \<and> list_all (\<lambda>kv. wf_binding (snd kv)) ps)"
| "wf_player v = False"

fun wf_mappings :: "jsval \<Rightarrow> bool" where
  "wf_mappings (Obj ps) =
     (distinct (map fst ps) \<and> set (map fst ps) = {''p1'', ''p2''}
      \<and> list_all (\<lambda>kv. wf_player (snd kv)) ps)"
| "wf_mappings v = False"

section \<open>Console detection and ROM ingestion\<close>

subsection \<open>Strings\<close>

text \<open>
  File names are modelled as ASCII strings: \<^verbatim>\<open>toLowerCase\<close> maps A to Z onto a to z
  and leaves every other character alone.
\<close>

definition lower_char :: "char \<Rightarrow> char" where
  "lower_char c =
     (case map_of (zip ''ABCDEFGHIJKLMNOPQRSTUVWXYZ'' ''abcdefghijklmnopqrstuvwxyz'') c of
        Some l \<Rightarrow> l
      | None \<Rightarrow> c)"

definition toLowerCase :: "string \<Rightarrow> string" where
  "toLowerCase s = map lower_char s"

text \<open>\<^verbatim>\<open>s.split(d)\<close> for a one-character separator: never empty.\<close>

fun split_on :: "char \<Rightarrow> string \<Rightarrow> string list" where
  "split_on d [] = [[]]"
| "split_on d (c # cs) =
     (if c = d then [] # split_on d cs
      else (case split_on d cs of w # ws \<Rightarrow> (c # w) # ws | [] \<Rightarrow> [[c]]))"

definition endsWith :: "string \<Rightarrow> string \<Rightarrow> bool" where
  "endsWith s suf = suffix suf s"

text \<open>
  \<^verbatim>\<open>name.match(/\.([^.]+)$/)?.[1]\<close>: the search tries each position from the left; at
  a dot, the greedy class takes every following character that is not a dot and the
  anchor needs the end of the string, so the match succeeds exactly when the rest is not
  empty and has no dot. No match gives undefined.
\<close>

fun regex_ext :: "string \<Rightarrow> string option" where
  "regex_ext [] = None"
| "regex_ext (c # cs) =
     (if c = CHR ''.'' \<and> cs \<noteq> [] \<and> CHR ''.'' \<notin> set cs then Some cs else regex_ext cs)"

subsection \<open>detectConsoleFromFile\<close>

record profile =
  core :: string
  extensions :: string

text \<open>
  The object literal \<^verbatim>\<open>consoleMap\<close>, entry by entry in source order. The keys cue and
  iso occur twice; in an object literal the later entry replaces the earlier one.
\<close>

definition consoleMap :: "(string \<times> profile) list" where
  "consoleMap =
    [(''smc'', \<lparr>core = ''snes9x'', extensions = ''.smc,.sfc,.fig,.swc''\<rparr>),
     (''sfc'', \<lparr>core = ''snes9x'', extensions = ''.smc,.sfc,.fig,.swc''\<rparr>),
     (''fig'', \<lparr>core = ''snes9x'', extensions = ''.smc,.sfc,.fig,.swc''\<rparr>),
     (''swc'', \<lparr>core = ''snes9x'', extensions = ''.smc,.sfc,.fig,.swc''\<rparr>),
     (''nes'', \<lparr>core = ''fceumm'', extensions = ''.nes,.unf,.unif''\<rparr>),
     (''unf'', \<lparr>core = ''fceumm'', extensions = ''.nes,.unf,.unif''\<rparr>),
     (''unif'', \<lparr>core = ''fceumm'', extensions = ''.nes,.unf,.unif''\<rparr>),
     (''gba'', \<lparr>core = ''mgba'', extensions = ''.gba,.agb''\<rparr>),
     (''agb'', \<lparr>core = ''mgba'', extensions = ''.gba,.agb''\<rparr>),
     (''gbc'', \<lparr>core = ''gambatte'', extensions = ''.gbc''\<rparr>),
     (''gb'', \<lparr>core = ''gambatte'', extensions = ''.gb''\<rparr>),
     (''n64'', \<lparr>core = ''mupen64plus_next'', extensions = ''.n64,.z64,.v64''\<rparr>),
     (''z64'', \<lparr>core = ''mupen64plus_next'', extensions = ''.n64,.z64,.v64''\<rparr>),
     (''v64'', \<lparr>core = ''mupen64plus_next'', extensions = ''.n64,.z64,.v64''\<rparr>),
     (''nds'', \<lparr>core = ''melonds'', extensions = ''.nds''\<rparr>),
     (''md'', \<lparr>core = ''genesis_plus_gx'', extensions = ''.md,.gen,.smd,.bin''\<rparr>),
     (''gen'', \<lparr>core = ''genesis_plus_gx'', extensions = ''.md,.gen,.smd,.bin''\<rparr>),
     (''smd'', \<lparr>core = ''genesis_plus_gx'', extensions = ''.md,.gen,.smd,.bin''\<rparr>),
     (''sms'', \<lparr>core = ''genesis_plus_gx'', extensions = ''.sms''\<rparr>),
     (''gg'', \<lparr>core = ''genesis_plus_gx'', extensions = ''.gg''\<rparr>),
     (''cue'', \<lparr>core = ''genesis_plus_gx'', extensions = ''.cue,.chd,.iso''\<rparr>),
     (''chd'', \<lparr>core = ''genesis_plus_gx'', extensions = ''.cue,.chd,.iso''\<rparr>),
     (''iso'', \<lparr>core = ''genesis_plus_gx'', extensions = ''.cue,.chd,.iso''\<rparr>),
     (''32x'', \<lparr>core = ''picodrive'', extensions = ''.32x,.bin''\<rparr>),
     (''ccd'', \<lparr>core = ''yabause'', extensions = ''.cue,.ccd,.chd,.iso''\<rparr>),
     (''cue'', \<lparr>core = ''pcsx_rearmed'', extensions = ''.cue,.chd,.pbp,.bin''\<rparr>),
     (''pbp'', \<lparr>core = ''pcsx_rearmed'', extensions = ''.cue,.chd,.pbp,.bin''\<rparr>),
     (''a26'', \<lparr>core = ''stella'', extensions = ''.a26,.bin''\<rparr>),
     (''a78'', \<lparr>core = ''prosystem'', extensions = ''.a78''\<rparr>),
     (''lnx'', \<lparr>core = ''handy'', extensions = ''.lnx,.o''\<rparr>),
     (''o'', \<lparr>core = ''handy'', extensions = ''.lnx,.o''\<rparr>),
     (''j64'', \<lparr>core = ''virtualjaguar'', extensions = ''.j64,.jag''\<rparr>),
     (''jag'', \<lparr>core = ''virtualjaguar'', extensions = ''.j64,.jag''\<rparr>),
     (''pce'', \<lparr>core = ''mednafen_pce_fast'', extensions = ''.pce,.sgx''\<rparr>),
     (''sgx'', \<lparr>core = ''mednafen_pce_fast'', extensions = ''.pce,.sgx''\<rparr>),
     (''ngp'', \<lparr>core = ''mednafen_ngp'', extensions = ''.ngp,.ngc''\<rparr>),
     (''ngc'', \<lparr>core = ''mednafen_ngp'', extensions = ''.ngp,.ngc''\<rparr>),
     (''ws'', \<lparr>core = ''mednafen_wswan'', extensions = ''.ws,.wsc''\<rparr>),
     (''wsc'', \<lparr>core = ''mednafen_wswan'', extensions = ''.ws,.wsc''\<rparr>),
     (''vb'', \<lparr>core = ''mednafen_vb'', extensions = ''.vb,.vboy''\<rparr>),
     (''vboy'', \<lparr>core = ''mednafen_vb'', extensions = ''.vb,.vboy''\<rparr>),
     (''rom'', \<lparr>core = ''bluemsx'', extensions = ''.rom,.mx1,.mx2,.dsk''\<rparr>),
     (''mx1'', \<lparr>core = ''bluemsx'', extensions = ''.rom,.mx1,.mx2,.dsk''\<rparr>),
     (''mx2'', \<lparr>core = ''bluemsx'', extensions = ''.rom,.mx1,.mx2,.dsk''\<rparr>),
     (''dsk'', \<lparr>core = ''bluemsx'', extensions = ''.rom,.mx1,.mx2,.dsk''\<rparr>),
     (''d64'', \<lparr>core = ''vice_x64'', extensions = ''.d64,.t64,.prg''\<rparr>),
     (''t64'', \<lparr>core = ''vice_x64'', extensions = ''.d64,.t64,.prg''\<rparr>),
     (''prg'', \<lparr>core = ''vice_x64'', extensions = ''.d64,.t64,.prg''\<rparr>),
     (''cdt'', \<lparr>core = ''cap32'', extensions = ''.cdt,.dsk''\<rparr>),
     (''iso'', \<lparr>core = ''opera'', extensions = ''.iso,.cue,.chd''\<rparr>),
     (''vec'', \<lparr>core = ''vecx'', extensions = ''.vec,.gam,.bin''\<rparr>),
     (''gam'', \<lparr>core = ''vecx'', extensions = ''.vec,.gam,.bin''\<rparr>),
     (''bin'', \<lparr>core = ''snes9x'', extensions = ''.bin''\<rparr>)]"

definition own_property :: "(string \<times> 'a) list \<Rightarrow> string \<Rightarrow> 'a option" where
  "own_property literal k = map_of (rev literal) k"

text \<open>
  \<^verbatim>\<open>consoleMap[ext]\<close> is an ordinary property read: a key the literal lacks is looked
  up in \<^verbatim>\<open>Object.prototype\<close>, whose members are functions or objects, all truthy and
  none with a \<^verbatim>\<open>core\<close> or \<^verbatim>\<open>extensions\<close> property.
\<close>

definition object_prototype_members :: "string list" where
  "object_prototype_members =
    [''constructor'', ''__defineGetter__'', ''__defineSetter__'', ''hasOwnProperty'',
     ''__lookupGetter__'', ''__lookupSetter__'', ''isPrototypeOf'',
     ''propertyIsEnumerable'', ''toString'', ''valueOf'', ''__proto__'',
     ''toLocaleString'']"

datatype detected = Listed profile | Inherited string

definition default_profile :: profile where
  "default_profile = \<lparr>core = ''snes9x'', extensions = ''.smc,.sfc''\<rparr>"

definition file_ext :: "string \<Rightarrow> string option" where
  "file_ext filename = regex_ext (toLowerCase filename)"

definition detectConsoleFromFile :: "string \<Rightarrow> detected" where
  "detectConsoleFromFile filename =
     (let ext = file_ext filename;
          key = (case ext of None \<Rightarrow> ''undefined'' | Some e \<Rightarrow> e)
      in case own_property consoleMap key of
           Some p \<Rightarrow> Listed p
         | None \<Rightarrow>
             if key \<in> set object_prototype_members then Inherited key
             else Listed default_profile)"

text \<open>\<^verbatim>\<open>detected.core\<close> and \<^verbatim>\<open>detected.extensions\<close>; None is undefined.\<close>

fun core_of :: "detected \<Rightarrow> string option" where
  "core_of (Listed p) = Some (core p)"
| "core_of (Inherited k) = None"

fun extensions_of :: "detected \<Rightarrow> string option" where
  "extensions_of (Listed p) = Some (extensions p)"
| "extensions_of (Inherited k) = None"

text \<open>A profile's alias set: the members of its comma-separated extension list.\<close>

definition aliases :: "profile \<Rightarrow> string list" where
  "aliases p = split_on CHR '','' (extensions p)"

subsection \<open>extractRomFromZip\<close>

type_synonym bytes = "nat list"

record rom_file =
  name :: string
  data :: bytes

text \<open>
  An entry of \<^verbatim>\<open>zip.files\<close>: whether it is a directory, and what
  \<^verbatim>\<open>file.async('blob')\<close> settles to (\<open>Inl\<close> the message of the error it rejects
  with). \<^verbatim>\<open>JSZip.loadAsync\<close> is the archive reader: its result is the input here,
  \<open>Inl\<close> a rejection, \<open>Inr\<close> the entries as \<^verbatim>\<open>Object.entries(zip.files)\<close>
  enumerates them.
\<close>

record zip_entry =
  dir :: bool
  blob :: "string + bytes"

definition allRomExtensions :: "string list" where
  "allRomExtensions =
    [''.smc'', ''.sfc'', ''.fig'', ''.swc'', ''.nes'', ''.unf'', ''.unif'', ''.gba'',
     ''.agb'', ''.gbc'', ''.gb'', ''.n64'', ''.z64'', ''.v64'', ''.nds'', ''.md'',
     ''.gen'', ''.smd'', ''.sms'', ''.gg'', ''.cue'', ''.chd'', ''.iso'', ''.pbp'',
     ''.32x'', ''.a26'', ''.a78'', ''.lnx'', ''.o'', ''.j64'', ''.jag'', ''.pce'',
     ''.sgx'', ''.ngp'', ''.ngc'', ''.ws'', ''.wsc'', ''.vb'', ''.vboy'', ''.rom'',
     ''.mx1'', ''.mx2'', ''.d64'', ''.t64'', ''.prg'', ''.cdt'', ''.dsk'', ''.vec'',
     ''.gam'', ''.bin'']"

definition entry_ext :: "string \<Rightarrow> string" where
  "entry_ext filename = ''.'' @ toLowerCase (last (split_on CHR ''.'' filename))"

text \<open>The test the scan applies to an entry.\<close>

definition is_rom_entry :: "string \<times> zip_entry \<Rightarrow> bool" where
  "is_rom_entry e = (\<not> dir (snd e) \<and> entry_ext (fst e) \<in> set allRomExtensions)"

fun scan_entries :: "(string \<times> zip_entry) list \<Rightarrow> string + rom_file option" where
  "scan_entries [] = Inr None"
| "scan_entries ((filename, file) # rest) =
     (if \<not> dir file then
        (if entry_ext filename \<in> set allRomExtensions then
           (case blob file of
              Inl err \<Rightarrow> Inl err
            | Inr b \<Rightarrow> Inr (Some \<lparr>name = filename, data = b\<rparr>))
         else scan_entries rest)
      else scan_entries rest)"

definition extractRomFromZip :: "string + (string \<times> zip_entry) list \<Rightarrow> string + rom_file" where
  "extractRomFromZip loaded =
     (case loaded of
        Inl err \<Rightarrow> Inl err
      | Inr files \<Rightarrow>
          (case scan_entries files of
             Inl err \<Rightarrow> Inl err
           | Inr None \<Rightarrow> Inl ''No valid ROM file found in ZIP archive''
           | Inr (Some romFile) \<Rightarrow> Inr romFile))"

section \<open>Session: launching the engine\<close>

datatype status = Idle | Loading | Running | Error

text \<open>
  The component's state as far as launching goes: the React state \<^verbatim>\<open>status\<close>,
  \<^verbatim>\<open>errorMessage\<close>, \<^verbatim>\<open>errorDetails\<close>, \<^verbatim>\<open>core\<close>, \<^verbatim>\<open>extensions\<close> and the ref
  \<^verbatim>\<open>nostalgistRef\<close>. Three further fields record the engine side:
  \<open>pending\<close>, the calls of \<^verbatim>\<open>Nostalgist.launch\<close> that have not settled yet, with the
  ROM and core each was given; \<open>engines\<close>, the instances that \<^verbatim>\<open>launch\<close> has
  returned and on which \<^verbatim>\<open>exit\<close> has not been called; \<open>created\<close>, how many
  instances were returned so far (the next instance's number).
\<close>

record session =
  status :: status
  errorMessage :: "string option"
  errorDetails :: "string option"
  core_state :: "string option"
  extensions_state :: "string option"
  nostalgistRef :: "nat option"
  pending :: "(rom_file \<times> string option) list"
  engines :: "nat list"
  created :: nat

text \<open>
  \<^verbatim>\<open>launchWithRomFile(file, detectedCore = null)\<close> up to its \<^verbatim>\<open>await\<close>:
  \<^verbatim>\<open>if (!file) return; setStatus('loading'); const coreToUse = detectedCore || core;
  ... await Nostalgist.launch({core: coreToUse, rom: file, ...})\<close>.
  \<^verbatim>\<open>core\<close> is the state as the handler's render saw it (\<open>rendered_core\<close>), not
  what an earlier \<^verbatim>\<open>setCore\<close> of the same handler asked for.
\<close>

definition launchWithRomFile ::
  "string option \<Rightarrow> rom_file option \<Rightarrow> string option \<Rightarrow> session \<Rightarrow> session" where
  "launchWithRomFile rendered_core file detectedCore s =
     (case file of
        None \<Rightarrow> s
      | Some f \<Rightarrow>
          let coreToUse = (case detectedCore of
                             Some c \<Rightarrow> if c \<noteq> [] then Some c else rendered_core
                           | None \<Rightarrow> rendered_core)
          in s\<lparr>status := Loading, pending := pending s @ [(f, coreToUse)]\<rparr>)"

text \<open>
  The rest of \<^verbatim>\<open>launchWithRomFile\<close>, run when the awaited launch settles. On success:
  \<^verbatim>\<open>nostalgistRef.current = <the new instance>; setStatus('running')\<close>. On rejection
  with \<^verbatim>\<open>err\<close>: \<^verbatim>\<open>setErrorMessage(err && err.message ? err.message : String(err));
  setErrorDetails(err && err.stack ? err.stack : null); setStatus('error')\<close>.
  A thrown value is given by its message and stack (empty when missing) and its string
  conversion.
\<close>

record thrown =
  message :: string
  stack :: string
  as_string :: string

datatype outcome = Launched | Rejected thrown

definition launch_settled :: "nat \<Rightarrow> outcome \<Rightarrow> session \<Rightarrow> session" where
  "launch_settled i out s =
     (if i < length (pending s) then
        (let s' = s\<lparr>pending := take i (pending s) @ drop (Suc i) (pending s)\<rparr>
         in case out of
              Launched \<Rightarrow>
                s'\<lparr>nostalgistRef := Some (created s),
                   engines := created s # engines s,
                   created := Suc (created s),
                   status := Running\<rparr>
            | Rejected err \<Rightarrow>
                s'\<lparr>errorMessage := Some (if message err \<noteq> [] then message err else as_string err),
                   errorDetails := (if stack err \<noteq> [] then Some (stack err) else None),
                   status := Error\<rparr>)
      else s)"

text \<open>
  \<^verbatim>\<open>onRomSelected\<close>, given the chosen files and, for an archive, what
  \<^verbatim>\<open>JSZip.loadAsync\<close> settles to.
\<close>

definition onRomSelected ::
  "rom_file list \<Rightarrow> string + (string \<times> zip_entry) list \<Rightarrow> session \<Rightarrow> session" where
  "onRomSelected files loaded s =
     (case files of
        [] \<Rightarrow> s
      | f # _ \<Rightarrow>
          let detected = detectConsoleFromFile (name f);
              s1 = s\<lparr>core_state := core_of detected, extensions_state := extensions_of detected\<rparr>
          in if endsWith (toLowerCase (name f)) ''.zip'' then
               (let s2 = s1\<lparr>status := Loading\<rparr>
                in case extractRomFromZip loaded of
                     Inr romFile \<Rightarrow>
                       let detectedFromRom = detectConsoleFromFile (name romFile);
                           s3 = s2\<lparr>core_state := core_of detectedFromRom,
                                   extensions_state := extensions_of detectedFromRom\<rparr>
                       in launchWithRomFile (core_state s) (Some romFile) (core_of detectedFromRom) s3
                   | Inl msg \<Rightarrow>
                       s2\<lparr>errorMessage := Some (''Failed to extract ROM from ZIP: '' @ msg),
                          status := Error\<rparr>)
             else launchWithRomFile (core_state s) (Some f) (core_of detected) s1)"

text \<open>
  The unmount cleanup: \<^verbatim>\<open>if (nostalgistRef.current && typeof
  nostalgistRef.current.exit === 'function') { await nostalgistRef.current.exit();
  nostalgistRef.current = null; }\<close>, an exception being caught and logged.
\<close>

definition unmount :: "bool \<Rightarrow> bool \<Rightarrow> session \<Rightarrow> session" where
  "unmount has_exit exit_throws s =
     (case nostalgistRef s of
        None \<Rightarrow> s
      | Some h \<Rightarrow>
          if has_exit then
            (if exit_throws then s
             else s\<lparr>engines := removeAll h (engines s), nostalgistRef := None\<rparr>)
          else s)"

datatype session_event =
    LaunchRequest rom_file "string option"
  | LaunchSettled nat outcome
  | Unmount bool bool

fun session_step :: "session_event \<Rightarrow> session \<Rightarrow> session" where
  "session_step (LaunchRequest f c) s = launchWithRomFile (core_state s) (Some f) c s"
| "session_step (LaunchSettled i out) s = launch_settled i out s"
| "session_step (Unmount has_exit exit_throws) s = unmount has_exit exit_throws s"

fun session_run :: "session_event list \<Rightarrow> session \<Rightarrow> session" where
  "session_run [] s = s"
| "session_run (e # es) s = session_run es (session_step e s)"

definition initial_session :: session where
  "initial_session =
     \<lparr>status = Idle, errorMessage = None, errorDetails = None,
      core_state = Some ''snes9x'', extensions_state = Some ''.smc,.sfc'',
      nostalgistRef = None, pending = [], engines = [], created = 0\<rparr>"

section \<open>Save and load state\<close>

text \<open>
  What the engine instance offers. The component probes each method with
  \<^verbatim>\<open>typeof n.m === 'function'\<close> before calling it.
\<close>

record engine_api =
  has_press :: bool
  has_pressDown :: bool
  has_pressUp :: bool
  has_sendCommand :: bool
  has_saveState :: bool
  has_loadState :: bool

datatype state_data =
    BlobData bytes
  | ArrayBufferData bytes
  | Uint8ArrayData bytes
  | OtherData jsval

datatype download = RawBytes bytes | JsonText jsval

datatype load_arg = AsFile | AsArrayBuffer

datatype ui_effect =
    Alert string
  | Download download string
  | EngineSaveState
  | EngineLoadState load_arg

fun to_blob :: "state_data \<Rightarrow> download" where
  "to_blob (BlobData b) = RawBytes b"
| "to_blob (ArrayBufferData b) = RawBytes b"
| "to_blob (Uint8ArrayData b) = RawBytes b"
| "to_blob (OtherData v) = JsonText v"

text \<open>
  \<^verbatim>\<open>saveState\<close> of \<^verbatim>\<open>EmulatorScreen(fixes 2p).jsx\<close>. \<open>result\<close> is what the
  engine's \<^verbatim>\<open>saveState()\<close> settles to, \<open>Inl\<close> the message of the error it throws.
  Everything after the two early returns runs inside \<^verbatim>\<open>try/catch\<close>, so the function
  never throws; it returns the session it was given, with the effects it had.
\<close>

definition saveState ::
  "engine_api \<Rightarrow> string + state_data \<Rightarrow> session \<Rightarrow> session \<times> ui_effect list" where
  "saveState api result s =
     (case nostalgistRef s of
        None \<Rightarrow> (s, [Alert ''Please load a ROM first''])
      | Some n \<Rightarrow>
          if \<not> has_saveState api then (s, [Alert ''Save state not supported by this core''])
          else (case result of
                  Inr stateData \<Rightarrow>
                    (s, [EngineSaveState, Download (to_blob stateData) ''snes_save.state'',
                         Alert ''State saved!''])
                | Inl msg \<Rightarrow>
                    (s, [EngineSaveState, Alert (''Failed to save state: '' @ msg)])))"

text \<open>
  \<^verbatim>\<open>onLoadStateFile\<close>: the chosen files, and what the three awaited steps settle to
  (None when they succeed, the error's message when they throw):
  \<^verbatim>\<open>n.loadState(f)\<close>, \<^verbatim>\<open>f.arrayBuffer()\<close>, \<^verbatim>\<open>n.loadState(buffer)\<close>.
\<close>

record load_results =
  by_file :: "string option"
  read_buffer :: "string option"
  by_buffer :: "string option"

definition onLoadStateFile ::
  "engine_api \<Rightarrow> rom_file list \<Rightarrow> load_results \<Rightarrow> session \<Rightarrow> session \<times> ui_effect list" where
  "onLoadStateFile api files r s =
     (case files of
        [] \<Rightarrow> (s, [])
      | f # _ \<Rightarrow>
          (case nostalgistRef s of
             None \<Rightarrow> (s, [Alert ''Please load a ROM first''])
           | Some n \<Rightarrow>
               if \<not> has_loadState api then
                 (s, [Alert ''Load state not supported by this core''])
               else (case by_file r of
                       None \<Rightarrow> (s, [EngineLoadState AsFile, Alert ''State loaded!''])
                     | Some fileErr \<Rightarrow>
                         (case read_buffer r of
                            Some err \<Rightarrow>
                              (s, [EngineLoadState AsFile,
                                   Alert (''Failed to load state: '' @ err)])
                          | None \<Rightarrow>
                              (case by_buffer r of
                                 None \<Rightarrow>
                                   (s, [EngineLoadState AsFile, EngineLoadState AsArrayBuffer,
                                        Alert ''State loaded!''])
                               | Some err \<Rightarrow>
                                   (s, [EngineLoadState AsFile, EngineLoadState AsArrayBuffer,
                                        Alert (''Failed to load state: '' @ err)]))))))"

section \<open>On-screen controls\<close>

text \<open>
  What a virtual press or release does: the update of \<^verbatim>\<open>activeButtons\<close>
  (\<^verbatim>\<open>[player]: {..., [buttonName]: true|false}\<close>) and the call made on the engine
  instance, with the identifier it is given. An exception of the engine call is caught
  and dropped.
\<close>

datatype input_effect =
    SetActive string string bool
  | PressDown string
  | PressUp string
  | Press string

text \<open>
  \<^verbatim>\<open>handleVirtualPress(buttonName, player = 'p1')\<close> and
  \<^verbatim>\<open>handleVirtualRelease(buttonName, player = 'p1')\<close>; an omitted player argument is
  None. \<open>ref\<close> is \<^verbatim>\<open>nostalgistRef.current\<close>.
\<close>

definition handleVirtualPress ::
  "engine_api \<Rightarrow> nat option \<Rightarrow> string \<Rightarrow> string option \<Rightarrow> input_effect list" where
  "handleVirtualPress api ref buttonName player_arg =
     (let player = (case player_arg of None \<Rightarrow> ''p1'' | Some p \<Rightarrow> p);
          id = toCoreId buttonName (if player = ''p2'' then Num 2 else Num 1)
      in SetActive player buttonName True #
         (if ref \<noteq> None \<and> has_pressDown api then [PressDown id]
          else if ref \<noteq> None \<and> has_press api then [Press id]
          else []))"

definition handleVirtualRelease ::
  "engine_api \<Rightarrow> nat option \<Rightarrow> string \<Rightarrow> string option \<Rightarrow> input_effect list" where
  "handleVirtualRelease api ref buttonName player_arg =
     (let player = (case player_arg of None \<Rightarrow> ''p1'' | Some p \<Rightarrow> p);
          id = toCoreId buttonName (if player = ''p2'' then Num 2 else Num 1)
      in SetActive player buttonName False #
         (if ref \<noteq> None \<and> has_pressUp api then [PressUp id] else []))"

subsection \<open>The directional pad\<close>

text \<open>
  Coordinates are JavaScript numbers, that is IEEE 754 doubles. A finite double is given
  by its exact rational value; besides these a number is one of the two infinities or
  NaN. The sign of a zero is not kept: the code never divides by a negative zero, and
  nothing else tells the two zeros apart.
\<close>

datatype jsnum = Finite rat | PosInfinity | NegInfinity | NaN

text \<open>
  The result of an arithmetic operation is its exact result rounded to the nearest
  double, a tie going to the even mantissa. \<open>ilog2 a\<close> is the binary exponent of a
  positive \<open>a\<close> (the \<open>e\<close> with \<open>2^e \<le> a < 2^(e+1)\<close>); a double in that binade is a
  multiple of \<open>2^(e-52)\<close>, below \<open>2^-1022\<close> the spacing stays at \<open>2^-1074\<close>, and a
  result that rounds to \<open>2^1024\<close> or beyond is an infinity.
\<close>

definition pow2 :: "int \<Rightarrow> rat" where
  "pow2 e = (if 0 \<le> e then 2 ^ nat e else 1 / 2 ^ nat (- e))"

definition ilog2 :: "rat \<Rightarrow> int" where
  "ilog2 a = (if 1 \<le> a then bitlen \<lfloor>a\<rfloor> - 1 else - bitlen (\<lceil>1 / a\<rceil> - 1))"

definition round_even :: "rat \<Rightarrow> int" where
  "round_even q =
     (let f = \<lfloor>q\<rfloor>; d = q - of_int f
      in if d < 1 / 2 then f else if 1 / 2 < d then f + 1 else if even f then f else f + 1)"

definition round_double :: "rat \<Rightarrow> jsnum" where
  "round_double q =
     (if q = 0 then Finite 0
      else (let a = \<bar>q\<bar>;
                e = max (ilog2 a) (- 1022);
                u = pow2 (e - 52);
                r = of_int (round_even (a / u)) * u
            in if 0 < r \<and> 1024 \<le> ilog2 r then (if 0 < q then PosInfinity else NegInfinity)
               else Finite (if 0 < q then r else - r)))"

text \<open>
  A pointer event carries \<^verbatim>\<open>clientX/clientY\<close>, a touch event carries
  \<^verbatim>\<open>touches\<close>; a missing coordinate is undefined and makes the difference NaN.
\<close>

record pointer_event =
  touches :: "(rat \<times> rat) list"
  clientX :: "rat option"
  clientY :: "rat option"

record rect =
  rect_left :: rat
  rect_top :: rat
  rect_width :: rat
  rect_height :: rat

fun js_sub :: "rat option \<Rightarrow> rat \<Rightarrow> jsnum" where
  "js_sub None b = NaN"
| "js_sub (Some a) b = round_double (a - b)"

fun js_div :: "jsnum \<Rightarrow> rat \<Rightarrow> jsnum" where
  "js_div (Finite a) w =
     (if w = 0 then (if a = 0 then NaN else if 0 < a then PosInfinity else NegInfinity)
      else round_double (a / w))"
| "js_div NaN w = NaN"
| "js_div PosInfinity w = (if w < 0 then NegInfinity else PosInfinity)"
| "js_div NegInfinity w = (if w < 0 then PosInfinity else NegInfinity)"

fun js_lt :: "jsnum \<Rightarrow> rat \<Rightarrow> bool" where
  "js_lt (Finite a) c = (a < c)"
| "js_lt NegInfinity c = True"
| "js_lt v c = False"

fun js_gt :: "jsnum \<Rightarrow> rat \<Rightarrow> bool" where
  "js_gt (Finite a) c = (a > c)"
| "js_gt PosInfinity c = True"
| "js_gt v c = False"

datatype direction = DirUp | DirDown | DirLeft | DirRight

fun direction_name :: "direction \<Rightarrow> string" where
  "direction_name DirUp = ''up''"
| "direction_name DirDown = ''down''"
| "direction_name DirLeft = ''left''"
| "direction_name DirRight = ''right''"

text \<open>
  The doubles that the literals \<^verbatim>\<open>0.33\<close> and \<^verbatim>\<open>0.67\<close> denote: the ones nearest to
  33/100 and 67/100.
\<close>

definition cut_033 :: rat where
  "cut_033 = 5944751508129055 / 18014398509481984"

definition cut_067 :: rat where
  "cut_067 = 6034823500676465 / 9007199254740992"

text \<open>
  The zone test of \<^verbatim>\<open>handleDpadMove\<close>:
  \<^verbatim>\<open>if (yRatio < 0.33) 'up' else if (yRatio > 0.67) 'down'
  else if (xRatio < 0.33) 'left' else if (xRatio > 0.67) 'right'\<close>, else null.
\<close>

definition zone :: "jsnum \<Rightarrow> jsnum \<Rightarrow> direction option" where
  "zone xRatio yRatio =
     (if js_lt yRatio cut_033 then Some DirUp
      else if js_gt yRatio cut_067 then Some DirDown
      else if js_lt xRatio cut_033 then Some DirLeft
      else if js_gt xRatio cut_067 then Some DirRight
      else None)"

definition pointer_zone :: "pointer_event \<Rightarrow> rect \<Rightarrow> direction option" where
  "pointer_zone e r =
     (let (cx, cy) = (case touches e of
                        t # _ \<Rightarrow> (Some (fst t), Some (snd t))
                      | [] \<Rightarrow> (clientX e, clientY e));
          x = js_sub cx (rect_left r);
          y = js_sub cy (rect_top r)
      in zone (js_div x (rect_width r)) (js_div y (rect_height r)))"

text \<open>
  \<^verbatim>\<open>handleDpadMove\<close>, \<^verbatim>\<open>handleDpadStart\<close> and \<^verbatim>\<open>handleDpadEnd\<close>. The state is the
  ref \<^verbatim>\<open>activeDpadDirection\<close>, which only ever holds null or a zone's name.
\<close>

definition handleDpadMove ::
  "engine_api \<Rightarrow> nat option \<Rightarrow> pointer_event \<Rightarrow> rect \<Rightarrow> direction option
     \<Rightarrow> direction option \<times> input_effect list" where
  "handleDpadMove api ref e r activeDpadDirection =
     (let newDirection = pointer_zone e r
      in if newDirection \<noteq> activeDpadDirection then
           (newDirection,
            (case activeDpadDirection of
               Some d \<Rightarrow> handleVirtualRelease api ref (direction_name d) None
             | None \<Rightarrow> [])
            @ (case newDirection of
                 Some d \<Rightarrow> handleVirtualPress api ref (direction_name d) None
               | None \<Rightarrow> []))
         else (activeDpadDirection, []))"

definition handleDpadStart ::
  "engine_api \<Rightarrow> nat option \<Rightarrow> pointer_event \<Rightarrow> rect \<Rightarrow> direction option
     \<Rightarrow> direction option \<times> input_effect list" where
  "handleDpadStart api ref e r activeDpadDirection = handleDpadMove api ref e r activeDpadDirection"

definition handleDpadEnd ::
  "engine_api \<Rightarrow> nat option \<Rightarrow> direction option \<Rightarrow> direction option \<times> input_effect list" where
  "handleDpadEnd api ref activeDpadDirection =
     (case activeDpadDirection of
        Some d \<Rightarrow> (None, handleVirtualRelease api ref (direction_name d) None)
      | None \<Rightarrow> (activeDpadDirection, []))"

subsection \<open>The handlers the markup attaches\<close>

text \<open>
  The d-pad surface attaches \<^verbatim>\<open>handleDpadStart\<close> to pointer-down and touch-start,
  \<^verbatim>\<open>handleDpadMove\<close> to pointer-move and touch-move, and \<^verbatim>\<open>handleDpadEnd\<close> to
  pointer-up, pointer-leave, pointer-cancel, touch-end and touch-cancel. Every button
  element attaches \<^verbatim>\<open>() => handleVirtualPress('<name>')\<close> to pointer-down and
  touch-start and \<^verbatim>\<open>() => handleVirtualRelease('<name>')\<close> to pointer-up and
  touch-end. The face and centre buttons are in both versions of the component, the
  shoulder buttons l and r in \<^verbatim>\<open>EmulatorScreen.jsx\<close>.
\<close>

datatype screen_button = BtnY | BtnX | BtnA | BtnB | BtnL | BtnR | BtnSelect | BtnStart

fun button_name :: "screen_button \<Rightarrow> string" where
  "button_name BtnY = ''y''"
| "button_name BtnX = ''x''"
| "button_name BtnA = ''a''"
| "button_name BtnB = ''b''"
| "button_name BtnL = ''l''"
| "button_name BtnR = ''r''"
| "button_name BtnSelect = ''select''"
| "button_name BtnStart = ''start''"

datatype screen_event =
    DpadStart pointer_event rect
  | DpadMove pointer_event rect
  | DpadEnd
  | ButtonDown screen_button
  | ButtonUp screen_button

fun on_screen ::
  "engine_api \<Rightarrow> nat option \<Rightarrow> screen_event \<Rightarrow> direction option
     \<Rightarrow> direction option \<times> input_effect list" where
  "on_screen api ref (DpadStart e r) a = handleDpadStart api ref e r a"
| "on_screen api ref (DpadMove e r) a = handleDpadMove api ref e r a"
| "on_screen api ref DpadEnd a = handleDpadEnd api ref a"
| "on_screen api ref (ButtonDown b) a = (a, handleVirtualPress api ref (button_name b) None)"
| "on_screen api ref (ButtonUp b) a = (a, handleVirtualRelease api ref (button_name b) None)"

fun on_screen_run ::
  "engine_api \<Rightarrow> nat option \<Rightarrow> screen_event list \<Rightarrow> direction option
     \<Rightarrow> direction option \<times> input_effect list" where
  "on_screen_run api ref [] a = (a, [])"
| "on_screen_run api ref (ev # evs) a =
     (let (a1, effs1) = on_screen api ref ev a;
          (a2, effs2) = on_screen_run api ref evs a1
      in (a2, effs1 @ effs2))"

text \<open>
  The player an effect is issued for: the key of \<^verbatim>\<open>activeButtons\<close> it updates, or,
  for an engine call, player 2 exactly when the identifier carries the prefix that
  \<^verbatim>\<open>toCoreId\<close> gives player 2.
\<close>

fun issued_for :: "input_effect \<Rightarrow> string" where
  "issued_for (SetActive p b v) = p"
| "issued_for (PressDown i) = (if prefix ''P2_'' i then ''p2'' else ''p1'')"
| "issued_for (PressUp i) = (if prefix ''P2_'' i then ''p2'' else ''p1'')"
| "issued_for (Press i) = (if prefix ''P2_'' i then ''p2'' else ''p1'')"

text \<open>
  The transitions among the effects: one per call of a virtual press (down) or release
  (up), with the control it names.
\<close>

fun transitions :: "input_effect list \<Rightarrow> (string \<times> transition) list" where
  "transitions [] = []"
| "transitions (SetActive p b v # es) = (b, if v then Down else Up) # transitions es"
| "transitions (e # es) = transitions es"

text \<open>
  A sequence of transitions is alternating from a state (the control now down, if any)
  when every down finds nothing down and every up releases the one control that is
  down: at most one control is down at any time, and downs and ups are balanced.
  \<open>after\<close> is the state such a sequence leaves.
\<close>

fun alternating :: "string option \<Rightarrow> (string \<times> transition) list \<Rightarrow> bool" where
  "alternating cur [] = True"
| "alternating None ((b, Down) # ts) = alternating (Some b) ts"
| "alternating (Some c) ((b, Up) # ts) = (b = c \<and> alternating None ts)"
| "alternating None ((b, Up) # ts) = False"
| "alternating (Some c) ((b, Down) # ts) = False"

fun after :: "string option \<Rightarrow> (string \<times> transition) list \<Rightarrow> string option" where
  "after cur [] = cur"
| "after cur ((b, Down) # ts) = after (Some b) ts"
| "after cur ((b, Up) # ts) = after None ts"

fun is_dpad_event :: "screen_event \<Rightarrow> bool" where
  "is_dpad_event (ButtonDown b) = False"
| "is_dpad_event (ButtonUp b) = False"
| "is_dpad_event ev = True"

section \<open>Gamepad polling\<close>

text \<open>
  A snapshot of one gamepad as \<^verbatim>\<open>navigator.getGamepads()\<close> returns it: its index, its
  buttons (\<^verbatim>\<open>pressed\<close>, \<^verbatim>\<open>value\<close>) and its axes. Axis and button values are
  doubles in the source and rationals here; they are only compared with 0.25 and 0.5,
  which are doubles themselves, so every comparison comes out as in the source.
\<close>

record gp_button =
  pressed :: bool
  btn_value :: rat

record gamepad =
  index :: nat
  buttons :: "gp_button list"
  axes :: "rat list"

text \<open>
  The ref \<^verbatim>\<open>gamepadState\<close>: per gamepad index, the last \<^verbatim>\<open>isPressed\<close> of each
  mapped button (absent until first written) and the four flags of the left stick.
\<close>

record axis_state =
  ax_up :: bool
  ax_down :: bool
  ax_left :: bool
  ax_right :: bool

record gamepadState =
  buttons_state :: "nat \<Rightarrow> (nat \<Rightarrow> bool option) option"
  axes_state :: "nat \<Rightarrow> axis_state option"

definition GAMEPAD_MAPPING :: "nat \<Rightarrow> string option" where
  "GAMEPAD_MAPPING =
     map_of [(0, ''b''), (1, ''a''), (2, ''x''), (3, ''y''), (4, ''l''), (5, ''r''),
             (6, ''l''), (7, ''r''), (8, ''select''), (9, ''start''),
             (12, ''up''), (13, ''down''), (14, ''left''), (15, ''right'')]"

definition DEADZONE :: rat where
  "DEADZONE = 1 / 4"

text \<open>
  Each dispatched \<^verbatim>\<open>snes:input\<close> event is paired with a tag that is not part of the
  event: the index of the gamepad and the place in \<^verbatim>\<open>pollGamepad\<close> that dispatched it
  (the button with a given index, or one of the four stick directions). The tag lets the
  emissions of one physical source be told apart from those of another that is mapped to
  the same control.
\<close>

datatype source = FromButton nat | FromStick direction

type_synonym tagged_event = "(nat \<times> source) \<times> input_event"

text \<open>
  The pattern every block of \<^verbatim>\<open>pollGamepad\<close> follows:
  \<^verbatim>\<open>if (active && !was) dispatch(down) else if (!active && was) dispatch(up)\<close>.
\<close>

definition edge :: "string \<Rightarrow> string \<Rightarrow> bool \<Rightarrow> bool \<Rightarrow> input_event list" where
  "edge ctl pl isActive wasActive =
     (if isActive \<and> \<not> wasActive then [\<lparr>control = ctl, ttype = Down, player = pl\<rparr>]
      else if \<not> isActive \<and> wasActive then [\<lparr>control = ctl, ttype = Up, player = pl\<rparr>]
      else [])"

definition isPressed :: "gp_button \<Rightarrow> bool" where
  "isPressed btn = (pressed btn \<or> btn_value btn > 1 / 2)"

text \<open>
  \<^verbatim>\<open>gp.buttons.forEach((btn, idx) => ...)\<close>, from index \<open>idx\<close> on. A button without a
  mapping is skipped before its state is read or written.
\<close>

fun poll_buttons ::
  "nat \<Rightarrow> string \<Rightarrow> nat \<Rightarrow> gp_button list \<Rightarrow> (nat \<Rightarrow> bool option)
     \<Rightarrow> (nat \<Rightarrow> bool option) \<times> tagged_event list" where
  "poll_buttons gi pl idx [] bst = (bst, [])"
| "poll_buttons gi pl idx (btn # rest) bst =
     (case GAMEPAD_MAPPING idx of
        None \<Rightarrow> poll_buttons gi pl (Suc idx) rest bst
      | Some snesButton \<Rightarrow>
          (let wasPressed = (bst idx = Some True);
               evs = map (Pair (gi, FromButton idx))
                       (edge snesButton pl (isPressed btn) wasPressed);
               (bst', evs') = poll_buttons gi pl (Suc idx) rest (bst(idx \<mapsto> isPressed btn))
           in (bst', evs @ evs')))"

text \<open>\<^verbatim>\<open>gp.axes[i] || 0\<close>: a missing axis reads as 0.\<close>

definition axis_or_0 :: "rat list \<Rightarrow> nat \<Rightarrow> rat" where
  "axis_or_0 as i = (if i < length as then as ! i else 0)"

definition poll_axes ::
  "nat \<Rightarrow> string \<Rightarrow> rat list \<Rightarrow> axis_state \<Rightarrow> axis_state \<times> tagged_event list" where
  "poll_axes gi pl as axisState =
     (let axisX = axis_or_0 as 0;
          axisY = axis_or_0 as 1;
          leftActive = (axisX < - DEADZONE);
          rightActive = (axisX > DEADZONE);
          upActive = (axisY < - DEADZONE);
          downActive = (axisY > DEADZONE)
      in (\<lparr>ax_up = upActive, ax_down = downActive, ax_left = leftActive, ax_right = rightActive\<rparr>,
          map (Pair (gi, FromStick DirLeft)) (edge ''left'' pl leftActive (ax_left axisState))
          @ map (Pair (gi, FromStick DirRight)) (edge ''right'' pl rightActive (ax_right axisState))
          @ map (Pair (gi, FromStick DirUp)) (edge ''up'' pl upActive (ax_up axisState))
          @ map (Pair (gi, FromStick DirDown)) (edge ''down'' pl downActive (ax_down axisState))))"

text \<open>The body of the loop over the gamepads, for one gamepad.\<close>

definition poll_pad :: "gamepad \<Rightarrow> gamepadState \<Rightarrow> gamepadState \<times> tagged_event list" where
  "poll_pad gp st =
     (let pl = (if index gp = 0 then ''p1'' else ''p2'');
          bst0 = (case buttons_state st (index gp) of None \<Rightarrow> Map.empty | Some b \<Rightarrow> b);
          ast0 = (case axes_state st (index gp) of
                    None \<Rightarrow> \<lparr>ax_up = False, ax_down = False, ax_left = False, ax_right = False\<rparr>
                  | Some a \<Rightarrow> a);
          (bst1, bevs) = poll_buttons (index gp) pl 0 (buttons gp) bst0;
          (ast1, aevs) = poll_axes (index gp) pl (axes gp) ast0
      in (st\<lparr>buttons_state := (buttons_state st)(index gp \<mapsto> bst1),
             axes_state := (axes_state st)(index gp \<mapsto> ast1)\<rparr>,
          bevs @ aevs))"

fun poll_pads :: "gamepad option list \<Rightarrow> gamepadState \<Rightarrow> gamepadState \<times> tagged_event list" where
  "poll_pads [] st = (st, [])"
| "poll_pads (None # rest) st = poll_pads rest st"
| "poll_pads (Some gp # rest) st =
     (let (st1, evs1) = poll_pad gp st;
          (st2, evs2) = poll_pads rest st1
      in (st2, evs1 @ evs2))"

text \<open>
  One tick of the timer. What the tick finds: the flag \<^verbatim>\<open>hasGamepad\<close> kept by
  \<^verbatim>\<open>checkGamepads\<close>, the status and engine ref, and the gamepads array.
\<close>

record poll =
  hasGamepad :: bool
  poll_status :: status
  poll_ref :: "nat option"
  gps :: "gamepad option list"

definition pollGamepad :: "poll \<Rightarrow> gamepadState \<Rightarrow> gamepadState \<times> tagged_event list" where
  "pollGamepad p st =
     (if \<not> hasGamepad p then (st, [])
      else if poll_status p = Running \<and> poll_ref p = None then (st, [])
      else poll_pads (gps p) st)"

fun run_polls :: "poll list \<Rightarrow> gamepadState \<Rightarrow> gamepadState \<times> tagged_event list" where
  "run_polls [] st = (st, [])"
| "run_polls (p # ps) st =
     (let (st1, evs1) = pollGamepad p st;
          (st2, evs2) = run_polls ps st1
      in (st2, evs1 @ evs2))"

subsection \<open>Edge detection, as the specification words it\<close>

text \<open>
  A transition is emitted only when the sampled state differs from the previous one: down
  on a change to active, up on a change to inactive, nothing on a steady state.
\<close>

fun edges :: "bool \<Rightarrow> bool list \<Rightarrow> transition list" where
  "edges prev [] = []"
| "edges prev (s # ss) = (if s \<noteq> prev then [if s then Down else Up] else []) @ edges s ss"

text \<open>
  What a source shows in a snapshot (no sample when the gamepad has no such mapped
  button), what the ref has stored for it, and the samples a sequence of ticks takes from
  the gamepad with a given index.
\<close>

fun sample_of :: "source \<Rightarrow> gamepad \<Rightarrow> bool list" where
  "sample_of (FromButton j) gp =
     (if j < length (buttons gp) \<and> GAMEPAD_MAPPING j \<noteq> None then [isPressed (buttons gp ! j)]
      else [])"
| "sample_of (FromStick DirLeft) gp = [axis_or_0 (axes gp) 0 < - DEADZONE]"
| "sample_of (FromStick DirRight) gp = [axis_or_0 (axes gp) 0 > DEADZONE]"
| "sample_of (FromStick DirUp) gp = [axis_or_0 (axes gp) 1 < - DEADZONE]"
| "sample_of (FromStick DirDown) gp = [axis_or_0 (axes gp) 1 > DEADZONE]"

fun axis_flag :: "direction \<Rightarrow> axis_state \<Rightarrow> bool" where
  "axis_flag DirUp a = ax_up a"
| "axis_flag DirDown a = ax_down a"
| "axis_flag DirLeft a = ax_left a"
| "axis_flag DirRight a = ax_right a"

fun stored_flag :: "gamepadState \<Rightarrow> nat \<Rightarrow> source \<Rightarrow> bool" where
  "stored_flag st i (FromButton j) =
     (case buttons_state st i of None \<Rightarrow> False | Some b \<Rightarrow> b j = Some True)"
| "stored_flag st i (FromStick d) =
     (case axes_state st i of None \<Rightarrow> False | Some a \<Rightarrow> axis_flag d a)"

definition pad_samples :: "nat \<Rightarrow> source \<Rightarrow> gamepad \<Rightarrow> bool list" where
  "pad_samples i src gp = (if index gp = i then sample_of src gp else [])"

fun pads_samples :: "nat \<Rightarrow> source \<Rightarrow> gamepad option list \<Rightarrow> bool list" where
  "pads_samples i src [] = []"
| "pads_samples i src (None # rest) = pads_samples i src rest"
| "pads_samples i src (Some gp # rest) = pad_samples i src gp @ pads_samples i src rest"

definition poll_samples :: "nat \<Rightarrow> source \<Rightarrow> poll \<Rightarrow> bool list" where
  "poll_samples i src p =
     (if hasGamepad p \<and> \<not> (poll_status p = Running \<and> poll_ref p = None)
      then pads_samples i src (gps p) else [])"

definition samples :: "nat \<Rightarrow> source \<Rightarrow> poll list \<Rightarrow> bool list" where
  "samples i src ps = concat (map (poll_samples i src) ps)"

definition emitted :: "nat \<times> source \<Rightarrow> tagged_event list \<Rightarrow> transition list" where
  "emitted tag evs = map (\<lambda>te. ttype (snd te)) (filter (\<lambda>te. fst te = tag) evs)"

fun source_control :: "source \<Rightarrow> string option" where
  "source_control (FromButton j) = GAMEPAD_MAPPING j"
| "source_control (FromStick d) = Some (direction_name d)"

definition last_or :: "bool \<Rightarrow> bool list \<Rightarrow> bool" where
  "last_or prev ss = (if ss = [] then prev else last ss)"

text \<open>
  An event agrees with its tag when it names the control its source is mapped to and
  the player of its gamepad (index 0 is player 1, every other index player 2).
\<close>

fun well_tagged :: "tagged_event \<Rightarrow> bool" where
  "well_tagged ((i, src), ev) =
     (source_control src = Some (control ev)
      \<and> player ev = (if i = 0 then ''p1'' else ''p2''))"

section \<open>Properties\<close>

subsection \<open>Core identifiers\<close>

text \<open>
  C9. For every logical button name b and every player value p, toCoreId b p is b
  prefixed with P2_ exactly when p is the number 2, and is b itself for every other
  value, the omitted argument (default 1) included. The function is total and has no
  state to modify.
\<close>

theorem toCoreId_spec:
  "toCoreId b p = (if p = Num 2 then ''P2_'' @ b else b)
   \<and> (toCoreId b p = ''P2_'' @ b) = (p = Num 2)
   \<and> toCoreId b Undefined = b
   \<and> toCoreId b (Num 1) = b"
  by (simp add: toCoreId_def)

subsection \<open>Default bindings\<close>

text \<open>
  C3. The claim is that no keyboard code is bound for both players in the built-in
  defaults. The literal binds KeyI to player 1's x and to player 2's a, and KeyU to
  player 1's y and to player 2's b: exactly these two codes are shared, and one press of
  KeyI is dispatched as a press for both players.
\<close>

theorem defaultMappings_shared_codes:
  "set (player_codes defaultMappings ''p1'') \<inter> set (player_codes defaultMappings ''p2'')
     = {''KeyI'', ''KeyU''}
   \<and> onKey Down defaultMappings ''KeyI''
     = [\<lparr>control = ''x'', ttype = Down, player = ''p1''\<rparr>,
        \<lparr>control = ''a'', ttype = Down, player = ''p2''\<rparr>]"
  by (simp add: player_codes_def defaultMappings_def defaultMappings_p1_def
        defaultMappings_p2_def onKey_def bound_controls_def)

subsection \<open>Persisting and reloading mappings\<close>

lemma json_norm_binding: "wf_binding b \<Longrightarrow> json_norm b = b \<and> b \<noteq> Undefined"
  by (induction b rule: wf_binding.induct) auto

lemma json_norm_player: "wf_player p \<Longrightarrow> json_norm p = p \<and> truthy p"
proof (cases p)
  case (Obj ps)
  assume "wf_player p"
  with Obj have all: "list_all (\<lambda>kv. wf_binding (snd kv)) ps" by simp
  have "filter (\<lambda>kv. snd kv \<noteq> Undefined) ps = ps"
    using all json_norm_binding by (induction ps) auto
  moreover have "map (\<lambda>kv. (fst kv, json_norm (snd kv))) ps = ps"
    using all json_norm_binding by (induction ps) auto
  ultimately show ?thesis using Obj by simp
qed auto

lemma json_norm_mappings: "wf_mappings m \<Longrightarrow> json_norm m = m"
proof (cases m)
  case (Obj ps)
  assume "wf_mappings m"
  with Obj have all: "list_all (\<lambda>kv. wf_player (snd kv)) ps" by simp
  have ne: "\<And>v. wf_player v \<Longrightarrow> v \<noteq> Undefined" by auto
  have "filter (\<lambda>kv. snd kv \<noteq> Undefined) ps = ps"
    using all ne by (induction ps) auto
  moreover have "map (\<lambda>kv. (fst kv, json_norm (snd kv))) ps = ps"
    using all json_norm_player by (induction ps) auto
  ultimately show ?thesis using Obj by simp
qed auto

lemma wf_mappings_truthy:
  assumes "wf_mappings m" and "k = ''p1'' \<or> k = ''p2''"
  shows "truthy m \<and> truthy (get m k)"
proof (cases m)
  case (Obj ps)
  with assms have d: "distinct (map fst ps)" and ks: "set (map fst ps) = {''p1'', ''p2''}"
    and all: "list_all (\<lambda>kv. wf_player (snd kv)) ps" by simp_all
  from ks assms(2) have "k \<in> fst ` set ps" by auto
  then obtain v where kv: "(k, v) \<in> set ps" by force
  with d have "map_of ps k = Some v" by simp
  moreover from kv all have "wf_player v" by (auto simp: list_all_iff)
  ultimately show ?thesis using Obj json_norm_player by simp
qed (use assms in auto)

lemma defaultMappings_wf: "wf_mappings defaultMappings"
  by (simp add: defaultMappings_def defaultMappings_p1_def defaultMappings_p2_def)

text \<open>
  C7. For every two-player mapping, persisting it (to a store that takes the write) and
  then running the initializer again yields the identical mapping; and for every parsed
  record that does not have both a p1 and a p2 key, the initializer yields that record
  as player 1's mapping with player 2 set to the built-in defaults.
\<close>

theorem mappings_roundtrip_and_legacy:
  "(wf_mappings m \<and> accepts_writes st \<longrightarrow> initial_mappings (persist m st) = m)
   \<and> (\<not> (has_key parsed ''p1'' \<and> has_key parsed ''p2'') \<longrightarrow>
        initial_mappings (st\<lparr>item := Json parsed\<rparr>)
          = Obj [(''p1'', parsed), (''p2'', Obj defaultMappings_p2)])"
proof (intro conjI impI)
  assume a: "wf_mappings m \<and> accepts_writes st"
  then have "m \<noteq> Undefined" by auto
  with a show "initial_mappings (persist m st) = m"
    using json_norm_mappings[of m] wf_mappings_truthy[of m "''p1''"]
      wf_mappings_truthy[of m "''p2''"]
    by (simp add: initial_mappings_def persist_def written_def)
next
  assume "\<not> (has_key parsed ''p1'' \<and> has_key parsed ''p2'')"
  then have "\<not> (truthy (get parsed ''p1'') \<and> truthy (get parsed ''p2''))"
    by (cases parsed) (auto split: option.splits dest: map_of_SomeD intro: rev_image_eqI)
  then show "initial_mappings (st\<lparr>item := Json parsed\<rparr>)
         = Obj [(''p1'', parsed), (''p2'', Obj defaultMappings_p2)]"
    by (auto simp: initial_mappings_def defaultMappings_def)
qed

theorem mappings_roundtrip_and_legacy_witness:
  "wf_mappings defaultMappings
   \<and> accepts_writes \<lparr>item = Missing, accepts_writes = True\<rparr>
   \<and> initial_mappings (persist defaultMappings \<lparr>item = Missing, accepts_writes = True\<rparr>)
       = defaultMappings
   \<and> \<not> has_key (Obj [(''a'', Obj [(''code'', Str ''KeyZ'')])]) ''p1''
   \<and> initial_mappings (\<lparr>item = Missing, accepts_writes = True\<rparr>
        \<lparr>item := Json (Obj [(''a'', Obj [(''code'', Str ''KeyZ'')])])\<rparr>)
       = Obj [(''p1'', Obj [(''a'', Obj [(''code'', Str ''KeyZ'')])]),
              (''p2'', Obj defaultMappings_p2)]"
  using mappings_roundtrip_and_legacy
    [of defaultMappings "\<lparr>item = Missing, accepts_writes = True\<rparr>"
        "Obj [(''a'', Obj [(''code'', Str ''KeyZ'')])]"]
    defaultMappings_wf
  by simp

subsection \<open>Console detection\<close>

lemma consoleMap_lists_key:
  "list_all (\<lambda>kp. case own_property consoleMap (fst kp) of
       Some p \<Rightarrow> (''.'' @ fst kp) \<in> set (aliases p) | None \<Rightarrow> False) consoleMap"
  by code_simp

lemma consoleMap_key_profile:
  assumes "k \<in> fst ` set consoleMap"
  shows "\<exists>p. own_property consoleMap k = Some p \<and> (''.'' @ k) \<in> set (aliases p)"
proof -
  from assms obtain q where kq: "(k, q) \<in> set consoleMap" by force
  have "\<forall>kp \<in> set consoleMap. case own_property consoleMap (fst kp) of
          Some p \<Rightarrow> (''.'' @ fst kp) \<in> set (aliases p) | None \<Rightarrow> False"
    using consoleMap_lists_key unfolding list_all_iff .
  from bspec[OF this kq]
  have "case own_property consoleMap k of
          Some p \<Rightarrow> (''.'' @ k) \<in> set (aliases p) | None \<Rightarrow> False"
    by (simp split: option.splits)
  then show ?thesis by (cases "own_property consoleMap k") auto
qed

lemma own_property_None: "k \<notin> fst ` set literal \<Longrightarrow> own_property literal k = None"
  by (simp add: own_property_def map_of_eq_None_iff)

text \<open>
  C5, as stated, fails. The extension .bin is in the alias set of the profile that
  detection returns for .md (genesis_plus_gx), yet a .bin file is detected as another
  profile; and the extension constructor, in no alias set, is not given the default
  profile but the member every object inherits under that name.
\<close>

theorem detect_alias_counterexample:
  "detectConsoleFromFile ''game.md''
     = Listed \<lparr>core = ''genesis_plus_gx'', extensions = ''.md,.gen,.smd,.bin''\<rparr>
   \<and> ''.bin'' \<in> set (aliases \<lparr>core = ''genesis_plus_gx'', extensions = ''.md,.gen,.smd,.bin''\<rparr>)
   \<and> detectConsoleFromFile ''game.bin'' = Listed \<lparr>core = ''snes9x'', extensions = ''.bin''\<rparr>
   \<and> ''constructor'' \<notin> fst ` set consoleMap
   \<and> detectConsoleFromFile ''game.constructor'' = Inherited ''constructor''"
  by code_simp

text \<open>
  C5, amended. For every file name whose extension is a key of the table, detection
  returns the table's profile for that key, and that profile lists the extension in its
  alias set; smc, sfc, fig and swc give the snes9x profile. For every file name without
  an extension, or with an extension that is neither a key of the table nor the name of
  a member of Object.prototype, detection returns the default profile (snes9x).
\<close>

theorem detect_listed_or_default:
  "(file_ext filename = Some k \<and> k \<in> fst ` set consoleMap \<longrightarrow>
      (\<exists>p. detectConsoleFromFile filename = Listed p
           \<and> own_property consoleMap k = Some p \<and> (''.'' @ k) \<in> set (aliases p)))
   \<and> (file_ext filename = Some k \<and> k \<in> {''smc'', ''sfc'', ''fig'', ''swc''} \<longrightarrow>
        detectConsoleFromFile filename
          = Listed \<lparr>core = ''snes9x'', extensions = ''.smc,.sfc,.fig,.swc''\<rparr>)
   \<and> ((file_ext filename = None
        \<or> (file_ext filename = Some k \<and> k \<notin> fst ` set consoleMap
            \<and> k \<notin> set object_prototype_members)) \<longrightarrow>
        detectConsoleFromFile filename = Listed default_profile)"
proof (intro conjI impI)
  assume "file_ext filename = Some k \<and> k \<in> fst ` set consoleMap"
  then show "\<exists>p. detectConsoleFromFile filename = Listed p
           \<and> own_property consoleMap k = Some p \<and> (''.'' @ k) \<in> set (aliases p)"
    using consoleMap_key_profile[of k] by (auto simp: detectConsoleFromFile_def)
next
  assume a: "file_ext filename = Some k \<and> k \<in> {''smc'', ''sfc'', ''fig'', ''swc''}"
  have "own_property consoleMap ''smc'' = Some \<lparr>core = ''snes9x'', extensions = ''.smc,.sfc,.fig,.swc''\<rparr>"
       "own_property consoleMap ''sfc'' = Some \<lparr>core = ''snes9x'', extensions = ''.smc,.sfc,.fig,.swc''\<rparr>"
       "own_property consoleMap ''fig'' = Some \<lparr>core = ''snes9x'', extensions = ''.smc,.sfc,.fig,.swc''\<rparr>"
       "own_property consoleMap ''swc'' = Some \<lparr>core = ''snes9x'', extensions = ''.smc,.sfc,.fig,.swc''\<rparr>"
    by code_simp+
  with a show "detectConsoleFromFile filename
          = Listed \<lparr>core = ''snes9x'', extensions = ''.smc,.sfc,.fig,.swc''\<rparr>"
    by (auto simp: detectConsoleFromFile_def)
next
  assume a: "file_ext filename = None
        \<or> (file_ext filename = Some k \<and> k \<notin> fst ` set consoleMap
            \<and> k \<notin> set object_prototype_members)"
  have u: "own_property consoleMap ''undefined'' = None"
          "''undefined'' \<notin> set object_prototype_members"
    by code_simp+
  from a show "detectConsoleFromFile filename = Listed default_profile"
    using u own_property_None[of k consoleMap]
    by (auto simp: detectConsoleFromFile_def)
qed

theorem detect_listed_or_default_witness:
  "file_ext ''Mario.SMC'' = Some ''smc'' \<and> ''smc'' \<in> fst ` set consoleMap
   \<and> detectConsoleFromFile ''Mario.SMC''
       = Listed \<lparr>core = ''snes9x'', extensions = ''.smc,.sfc,.fig,.swc''\<rparr>
   \<and> file_ext ''README'' = None
   \<and> detectConsoleFromFile ''README'' = Listed default_profile"
proof -
  have h: "file_ext ''Mario.SMC'' = Some ''smc''" "''smc'' \<in> fst ` set consoleMap"
    "file_ext ''README'' = None"
    by code_simp+
  show ?thesis
    using h detect_listed_or_default[of "''Mario.SMC''" "''smc''"]
      detect_listed_or_default[of "''README''" "''smc''"]
    by simp
qed

subsection \<open>Archives\<close>

lemma scan_entries_find:
  "scan_entries files =
     (case find is_rom_entry files of
        None \<Rightarrow> Inr None
      | Some e \<Rightarrow> (case blob (snd e) of
                     Inl err \<Rightarrow> Inl err
                   | Inr b \<Rightarrow> Inr (Some \<lparr>name = fst e, data = b\<rparr>)))"
  by (induction files rule: scan_entries.induct) (auto simp: is_rom_entry_def split: sum.splits)

text \<open>
  The list the scan uses holds every key of the detection table, with its dot, except
  ccd.
\<close>

lemma allRomExtensions_table:
  "set allRomExtensions = (\<lambda>k. ''.'' @ k) ` fst ` set consoleMap - {''.ccd''}"
  by code_simp

text \<open>
  What ingestion does with every archive (a chosen file whose lower-cased name ends in
  .zip, read by the archive reader into its entries): when the first entry in
  enumeration order that passes the scan's test exists and its bytes can be read,
  exactly that entry (its name and bytes) is handed to the launch, with the core
  detected from that entry's name; when no entry passes, ingestion ends in the error
  state with the no-ROM-in-archive message and neither starts a launch nor touches the
  engine.
\<close>

theorem zip_first_rom_or_error:
  "(endsWith (toLowerCase (name f)) ''.zip'' \<and> find is_rom_entry files = Some (n, e)
      \<and> blob e = Inr b \<longrightarrow>
      extractRomFromZip (Inr files) = Inr \<lparr>name = n, data = b\<rparr>
      \<and> onRomSelected (f # fs) (Inr files) s
          = launchWithRomFile (core_state s) (Some \<lparr>name = n, data = b\<rparr>)
              (core_of (detectConsoleFromFile n))
              (s\<lparr>core_state := core_of (detectConsoleFromFile n),
                  extensions_state := extensions_of (detectConsoleFromFile n),
                  status := Loading\<rparr>)
      \<and> fst (last (pending (onRomSelected (f # fs) (Inr files) s))) = \<lparr>name = n, data = b\<rparr>)
   \<and> (endsWith (toLowerCase (name f)) ''.zip'' \<and> find is_rom_entry files = None \<longrightarrow>
        extractRomFromZip (Inr files) = Inl ''No valid ROM file found in ZIP archive''
        \<and> status (onRomSelected (f # fs) (Inr files) s) = Error
        \<and> errorMessage (onRomSelected (f # fs) (Inr files) s)
            = Some ''Failed to extract ROM from ZIP: No valid ROM file found in ZIP archive''
        \<and> pending (onRomSelected (f # fs) (Inr files) s) = pending s
        \<and> engines (onRomSelected (f # fs) (Inr files) s) = engines s
        \<and> nostalgistRef (onRomSelected (f # fs) (Inr files) s) = nostalgistRef s)"
  by (simp add: extractRomFromZip_def onRomSelected_def scan_entries_find
        launchWithRomFile_def Let_def)

theorem zip_first_rom_or_error_witness:
  "endsWith (toLowerCase (name \<lparr>name = ''pack.ZIP'', data = []\<rparr>)) ''.zip''
   \<and> find is_rom_entry
         [(''docs/'', \<lparr>dir = True, blob = Inr []\<rparr>),
          (''readme.txt'', \<lparr>dir = False, blob = Inr [1]\<rparr>),
          (''Game.SFC'', \<lparr>dir = False, blob = Inr [7, 8]\<rparr>),
          (''b.nes'', \<lparr>dir = False, blob = Inr [9]\<rparr>)]
       = Some (''Game.SFC'', \<lparr>dir = False, blob = Inr [7, 8]\<rparr>)
   \<and> extractRomFromZip (Inr
         [(''docs/'', \<lparr>dir = True, blob = Inr []\<rparr>),
          (''readme.txt'', \<lparr>dir = False, blob = Inr [1]\<rparr>),
          (''Game.SFC'', \<lparr>dir = False, blob = Inr [7, 8]\<rparr>),
          (''b.nes'', \<lparr>dir = False, blob = Inr [9]\<rparr>)])
       = Inr \<lparr>name = ''Game.SFC'', data = [7, 8]\<rparr>
   \<and> find is_rom_entry [(''readme.txt'', \<lparr>dir = False, blob = Inr [1]\<rparr>)] = None
   \<and> status (onRomSelected [\<lparr>name = ''pack.ZIP'', data = []\<rparr>]
         (Inr [(''readme.txt'', \<lparr>dir = False, blob = Inr [1]\<rparr>)]) initial_session) = Error
   \<and> pending (onRomSelected [\<lparr>name = ''pack.ZIP'', data = []\<rparr>]
         (Inr [(''readme.txt'', \<lparr>dir = False, blob = Inr [1]\<rparr>)]) initial_session)
       = pending initial_session"
proof -
  have h: "endsWith (toLowerCase (name \<lparr>name = ''pack.ZIP'', data = []\<rparr>)) ''.zip''"
    by code_simp
  have f1: "find is_rom_entry
         [(''docs/'', \<lparr>dir = True, blob = Inr []\<rparr>),
          (''readme.txt'', \<lparr>dir = False, blob = Inr [1]\<rparr>),
          (''Game.SFC'', \<lparr>dir = False, blob = Inr [7, 8]\<rparr>),
          (''b.nes'', \<lparr>dir = False, blob = Inr [9]\<rparr>)]
       = Some (''Game.SFC'', \<lparr>dir = False, blob = Inr [7, 8]\<rparr>)"
    by code_simp
  have f2: "find is_rom_entry [(''readme.txt'', \<lparr>dir = False, blob = Inr [1]\<rparr>)] = None"
    by code_simp
  have b: "blob \<lparr>dir = False, blob = Inr [7, 8]\<rparr> = Inr [7, 8]" by simp
  from zip_first_rom_or_error
    [of "\<lparr>name = ''pack.ZIP'', data = []\<rparr>" _ "''Game.SFC''"
        "\<lparr>dir = False, blob = Inr [7, 8]\<rparr>" "[7, 8]" "[]" initial_session]
    h f1 b
  have c1: "extractRomFromZip (Inr
         [(''docs/'', \<lparr>dir = True, blob = Inr []\<rparr>),
          (''readme.txt'', \<lparr>dir = False, blob = Inr [1]\<rparr>),
          (''Game.SFC'', \<lparr>dir = False, blob = Inr [7, 8]\<rparr>),
          (''b.nes'', \<lparr>dir = False, blob = Inr [9]\<rparr>)])
       = Inr \<lparr>name = ''Game.SFC'', data = [7, 8]\<rparr>"
    by blast
  from zip_first_rom_or_error
    [of "\<lparr>name = ''pack.ZIP'', data = []\<rparr>"
        "[(''readme.txt'', \<lparr>dir = False, blob = Inr [1]\<rparr>)]" _ _ _ "[]" initial_session]
    h f2
  have c2: "status (onRomSelected [\<lparr>name = ''pack.ZIP'', data = []\<rparr>]
         (Inr [(''readme.txt'', \<lparr>dir = False, blob = Inr [1]\<rparr>)]) initial_session) = Error
   \<and> pending (onRomSelected [\<lparr>name = ''pack.ZIP'', data = []\<rparr>]
         (Inr [(''readme.txt'', \<lparr>dir = False, blob = Inr [1]\<rparr>)]) initial_session)
       = pending initial_session"
    by blast
  from h f1 f2 c1 c2 show ?thesis by blast
qed

text \<open>
  C4. The claim is that ingestion takes the first entry that is not a directory and
  whose extension is in the known-extension universe, the union of the profiles' alias
  sets. The extension .ccd is in the alias set of the yabause profile and is a key of
  the detection table, but it is missing from the list the scan uses: an archive that
  holds only disc.ccd ends in the no-ROM error, and from an archive that holds disc.ccd
  and then b.nes the payload is b.nes. The scan also takes the whole name of an entry
  without a dot as its extension, so an entry named nes is taken ahead of real.gba.
\<close>

theorem zip_ccd_entry_not_taken:
  "detectConsoleFromFile ''disc.ccd''
     = Listed \<lparr>core = ''yabause'', extensions = ''.cue,.ccd,.chd,.iso''\<rparr>
   \<and> ''.ccd'' \<in> set (aliases \<lparr>core = ''yabause'', extensions = ''.cue,.ccd,.chd,.iso''\<rparr>)
   \<and> extractRomFromZip (Inr [(''disc.ccd'', \<lparr>dir = False, blob = Inr [1]\<rparr>)])
       = Inl ''No valid ROM file found in ZIP archive''
   \<and> status (onRomSelected [\<lparr>name = ''pack.zip'', data = []\<rparr>]
         (Inr [(''disc.ccd'', \<lparr>dir = False, blob = Inr [1]\<rparr>)]) initial_session) = Error
   \<and> extractRomFromZip (Inr [(''disc.ccd'', \<lparr>dir = False, blob = Inr [1]\<rparr>),
                            (''b.nes'', \<lparr>dir = False, blob = Inr [2]\<rparr>)])
       = Inr \<lparr>name = ''b.nes'', data = [2]\<rparr>
   \<and> extractRomFromZip (Inr [(''nes'', \<lparr>dir = False, blob = Inr [3]\<rparr>),
                            (''real.gba'', \<lparr>dir = False, blob = Inr [4]\<rparr>)])
       = Inr \<lparr>name = ''nes'', data = [3]\<rparr>"
proof -
  have d: "detectConsoleFromFile ''disc.ccd''
     = Listed \<lparr>core = ''yabause'', extensions = ''.cue,.ccd,.chd,.iso''\<rparr>"
    by code_simp
  have a: "''.ccd'' \<in> set (aliases \<lparr>core = ''yabause'', extensions = ''.cue,.ccd,.chd,.iso''\<rparr>)"
    by code_simp
  have e1: "extractRomFromZip (Inr [(''disc.ccd'', \<lparr>dir = False, blob = Inr [1]\<rparr>)])
       = Inl ''No valid ROM file found in ZIP archive''"
    by code_simp
  have z: "endsWith (toLowerCase ''pack.zip'') ''.zip''"
    by code_simp
  have s: "status (onRomSelected [\<lparr>name = ''pack.zip'', data = []\<rparr>]
         (Inr [(''disc.ccd'', \<lparr>dir = False, blob = Inr [1]\<rparr>)]) initial_session) = Error"
    using e1 z by (simp add: onRomSelected_def Let_def)
  have e2: "extractRomFromZip (Inr [(''disc.ccd'', \<lparr>dir = False, blob = Inr [1]\<rparr>),
                            (''b.nes'', \<lparr>dir = False, blob = Inr [2]\<rparr>)])
       = Inr \<lparr>name = ''b.nes'', data = [2]\<rparr>"
    by code_simp
  have e3: "extractRomFromZip (Inr [(''nes'', \<lparr>dir = False, blob = Inr [3]\<rparr>),
                            (''real.gba'', \<lparr>dir = False, blob = Inr [4]\<rparr>)])
       = Inr \<lparr>name = ''nes'', data = [3]\<rparr>"
    by code_simp
  from d a e1 s e2 e3 show ?thesis by blast
qed

subsection \<open>Launch requests and engine handles\<close>

text \<open>
  C1, as stated, fails. After one launch has resolved (status running, handle 0 in the
  ref), a second launch request is accepted; when it resolves, handle 1 is stored in the
  ref while handle 0 has never been asked to exit: two engine instances exist. Two
  requests issued back to back are likewise both in flight.
\<close>

theorem launch_two_handles_counterexample:
  "status (session_run [LaunchRequest \<lparr>name = ''a.smc'', data = [1]\<rparr> None,
                        LaunchSettled 0 Launched] initial_session) = Running
   \<and> engines (session_run [LaunchRequest \<lparr>name = ''a.smc'', data = [1]\<rparr> None,
                           LaunchSettled 0 Launched,
                           LaunchRequest \<lparr>name = ''b.smc'', data = [2]\<rparr> None,
                           LaunchSettled 0 Launched] initial_session) = [1, 0]
   \<and> nostalgistRef (session_run [LaunchRequest \<lparr>name = ''a.smc'', data = [1]\<rparr> None,
                           LaunchSettled 0 Launched,
                           LaunchRequest \<lparr>name = ''b.smc'', data = [2]\<rparr> None,
                           LaunchSettled 0 Launched] initial_session) = Some 1
   \<and> length (pending (session_run [LaunchRequest \<lparr>name = ''a.smc'', data = [1]\<rparr> None,
                           LaunchRequest \<lparr>name = ''b.smc'', data = [2]\<rparr> None]
                          initial_session)) = 2"
  by (simp add: initial_session_def launchWithRomFile_def launch_settled_def)

text \<open>
  C1, amended. A launch request is accepted in every status, loading and running
  included: it sets the status to loading and puts one more engine launch in flight,
  and it neither releases an engine instance nor changes the handle in the ref. When a
  launch in flight resolves, the new handle replaces the one in the ref, and the
  instances that existed before all remain, whether the launch resolves or fails.
\<close>

theorem launch_unguarded:
  "status (launchWithRomFile rc (Some f) dc s) = Loading
   \<and> length (pending (launchWithRomFile rc (Some f) dc s)) = Suc (length (pending s))
   \<and> engines (launchWithRomFile rc (Some f) dc s) = engines s
   \<and> nostalgistRef (launchWithRomFile rc (Some f) dc s) = nostalgistRef s
   \<and> (i < length (pending s) \<longrightarrow>
        nostalgistRef (launch_settled i Launched s) = Some (created s)
        \<and> engines (launch_settled i Launched s) = created s # engines s
        \<and> status (launch_settled i Launched s) = Running)
   \<and> set (engines s) \<subseteq> set (engines (launch_settled i out s))"
  by (auto simp: launchWithRomFile_def launch_settled_def Let_def split: outcome.splits)

theorem launch_unguarded_witness:
  "(0::nat) < length (pending (launchWithRomFile None (Some \<lparr>name = ''a.smc'', data = [1]\<rparr>)
                                 None initial_session))
   \<and> nostalgistRef (launch_settled 0 Launched
        (launchWithRomFile None (Some \<lparr>name = ''a.smc'', data = [1]\<rparr>) None initial_session))
       = Some 0
   \<and> status (launch_settled 0 Launched
        (launchWithRomFile None (Some \<lparr>name = ''a.smc'', data = [1]\<rparr>) None initial_session))
       = Running"
proof -
  have h: "(0::nat) < length (pending (launchWithRomFile None
             (Some \<lparr>name = ''a.smc'', data = [1]\<rparr>) None initial_session))"
    by (simp add: launchWithRomFile_def initial_session_def)
  have c: "created (launchWithRomFile None
             (Some \<lparr>name = ''a.smc'', data = [1]\<rparr>) None initial_session) = 0"
    by (simp add: launchWithRomFile_def initial_session_def)
  from launch_unguarded
    [of _ _ _ "launchWithRomFile None (Some \<lparr>name = ''a.smc'', data = [1]\<rparr>) None
                 initial_session" 0] h c
  show ?thesis by simp
qed

subsection \<open>Saving and loading state without engine support\<close>

text \<open>
  C8. Whenever save state is invoked on an engine instance that has no saveState
  function, or load state is invoked with a state file on an engine instance that has no
  loadState function, the operation tells the user that the operation is not supported
  by this core, calls nothing on the engine, returns normally, and leaves the session
  as it was.
\<close>

theorem state_unsupported_reported:
  "(nostalgistRef s = Some n \<and> \<not> has_saveState api \<longrightarrow>
      saveState api result s = (s, [Alert ''Save state not supported by this core'']))
   \<and> (nostalgistRef s = Some n \<and> \<not> has_loadState api \<longrightarrow>
        onLoadStateFile api (f # fs) r s
          = (s, [Alert ''Load state not supported by this core'']))"
  by (simp add: saveState_def onLoadStateFile_def)

theorem state_unsupported_reported_witness:
  "nostalgistRef (session_run [LaunchRequest \<lparr>name = ''a.smc'', data = [1]\<rparr> None,
                               LaunchSettled 0 Launched] initial_session) = Some 0
   \<and> \<not> has_saveState \<lparr>has_press = True, has_pressDown = True, has_pressUp = True,
                        has_sendCommand = False, has_saveState = False,
                        has_loadState = False\<rparr>
   \<and> snd (saveState \<lparr>has_press = True, has_pressDown = True, has_pressUp = True,
                     has_sendCommand = False, has_saveState = False,
                     has_loadState = False\<rparr> (Inr (BlobData [1, 2]))
            (session_run [LaunchRequest \<lparr>name = ''a.smc'', data = [1]\<rparr> None,
                          LaunchSettled 0 Launched] initial_session))
       = [Alert ''Save state not supported by this core'']
   \<and> snd (onLoadStateFile \<lparr>has_press = True, has_pressDown = True, has_pressUp = True,
                     has_sendCommand = False, has_saveState = False,
                     has_loadState = False\<rparr> [\<lparr>name = ''snes_save.state'', data = [1, 2]\<rparr>]
            \<lparr>by_file = None, read_buffer = None, by_buffer = None\<rparr>
            (session_run [LaunchRequest \<lparr>name = ''a.smc'', data = [1]\<rparr> None,
                          LaunchSettled 0 Launched] initial_session))
       = [Alert ''Load state not supported by this core'']"
proof -
  have h: "nostalgistRef (session_run [LaunchRequest \<lparr>name = ''a.smc'', data = [1]\<rparr> None,
                               LaunchSettled 0 Launched] initial_session) = Some 0"
    by (simp add: initial_session_def launchWithRomFile_def launch_settled_def)
  from state_unsupported_reported
    [of "session_run [LaunchRequest \<lparr>name = ''a.smc'', data = [1]\<rparr> None,
                      LaunchSettled 0 Launched] initial_session" 0
        "\<lparr>has_press = True, has_pressDown = True, has_pressUp = True,
          has_sendCommand = False, has_saveState = False, has_loadState = False\<rparr>"
        "Inr (BlobData [1, 2])" "\<lparr>name = ''snes_save.state'', data = [1, 2]\<rparr>" "[]"
        "\<lparr>by_file = None, read_buffer = None, by_buffer = None\<rparr>"] h
  show ?thesis by simp
qed

subsection \<open>On-screen controls act for player 1\<close>

lemma virtual_handlers_p1:
  "\<not> prefix ''P2_'' b \<Longrightarrow>
     (\<forall>e \<in> set (handleVirtualPress api ref b None). issued_for e = ''p1'')
     \<and> (\<forall>e \<in> set (handleVirtualRelease api ref b None). issued_for e = ''p1'')"
  by (simp add: handleVirtualPress_def handleVirtualRelease_def toCoreId_def Let_def)

lemma direction_name_not_p2: "\<not> prefix ''P2_'' (direction_name d)"
  by (cases d) simp_all

lemma button_name_not_p2: "\<not> prefix ''P2_'' (button_name b)"
  by (cases b) simp_all

lemma handleDpadMove_p1:
  "\<forall>e \<in> set (snd (handleDpadMove api ref ev r a)). issued_for e = ''p1''"
  using virtual_handlers_p1[OF direction_name_not_p2]
  by (auto simp: handleDpadMove_def Let_def split: option.splits)

lemma handleDpadEnd_p1:
  "\<forall>e \<in> set (snd (handleDpadEnd api ref a)). issued_for e = ''p1''"
  using virtual_handlers_p1[OF direction_name_not_p2]
  by (auto simp: handleDpadEnd_def split: option.splits)

text \<open>
  C10. Every effect of every handler that the markup attaches to the on-screen controls
  (the d-pad surface and the face, shoulder and centre buttons) is issued for player 1:
  the helpers are called without a player argument, so the entry of activeButtons that
  is updated is p1's and the identifier passed to the engine is the plain button name.
  This holds for single events and for every sequence of them.
\<close>

theorem on_screen_player1_only:
  "(\<forall>e \<in> set (snd (on_screen api ref ev a)). issued_for e = ''p1'')
   \<and> (\<forall>e \<in> set (snd (on_screen_run api ref evs a)). issued_for e = ''p1'')"
proof -
  have one: "\<forall>e \<in> set (snd (on_screen api ref ev a)). issued_for e = ''p1''" for ev a
  proof (cases ev)
    case (DpadStart e r)
    then show ?thesis using handleDpadMove_p1 by (simp add: handleDpadStart_def)
  next
    case (DpadMove e r)
    then show ?thesis using handleDpadMove_p1 by simp
  next
    case DpadEnd
    then show ?thesis using handleDpadEnd_p1 by simp
  next
    case (ButtonDown b)
    then show ?thesis using virtual_handlers_p1[OF button_name_not_p2] by simp
  next
    case (ButtonUp b)
    then show ?thesis using virtual_handlers_p1[OF button_name_not_p2] by simp
  qed
  have "\<forall>e \<in> set (snd (on_screen_run api ref evs a)). issued_for e = ''p1''"
  proof (induction evs arbitrary: a)
    case Nil
    show ?case by simp
  next
    case (Cons ev evs)
    obtain a1 effs1 where s1: "on_screen api ref ev a = (a1, effs1)" by force
    obtain a2 effs2 where s2: "on_screen_run api ref evs a1 = (a2, effs2)" by force
    from one[of ev a] s1 have "\<forall>e \<in> set effs1. issued_for e = ''p1''" by simp
    moreover from Cons.IH[of a1] s2 have "\<forall>e \<in> set effs2. issued_for e = ''p1''" by simp
    ultimately show ?case using s1 s2 by auto
  qed
  with one show ?thesis by blast
qed

theorem on_screen_player1_only_witness:
  "snd (on_screen \<lparr>has_press = False, has_pressDown = True, has_pressUp = True,
                   has_sendCommand = False, has_saveState = False, has_loadState = False\<rparr>
          (Some 0) (ButtonDown BtnA) None)
     = [SetActive ''p1'' ''a'' True, PressDown ''a'']
   \<and> issued_for (PressDown ''a'') = ''p1''
   \<and> issued_for (SetActive ''p1'' ''a'' True) = ''p1''"
proof -
  have e: "snd (on_screen \<lparr>has_press = False, has_pressDown = True, has_pressUp = True,
                   has_sendCommand = False, has_saveState = False, has_loadState = False\<rparr>
          (Some 0) (ButtonDown BtnA) None)
     = [SetActive ''p1'' ''a'' True, PressDown ''a'']"
    by (simp add: handleVirtualPress_def toCoreId_def)
  from on_screen_player1_only
    [of "\<lparr>has_press = False, has_pressDown = True, has_pressUp = True,
          has_sendCommand = False, has_saveState = False, has_loadState = False\<rparr>"
        "Some 0" "ButtonDown BtnA" None "[]"]
  have "\<forall>x \<in> set (snd (on_screen \<lparr>has_press = False, has_pressDown = True, has_pressUp = True,
                   has_sendCommand = False, has_saveState = False, has_loadState = False\<rparr>
          (Some 0) (ButtonDown BtnA) None)). issued_for x = ''p1''"
    by blast
  then have "issued_for (PressDown ''a'') = ''p1'' \<and> issued_for (SetActive ''p1'' ''a'' True) = ''p1''"
    unfolding e by simp
  with e show ?thesis by blast
qed

subsection \<open>The directional pad\<close>

lemma transitions_append: "transitions (xs @ ys) = transitions xs @ transitions ys"
  by (induction xs rule: transitions.induct) simp_all

lemma transitions_press:
  "transitions (handleVirtualPress api ref b p) = [(b, Down)]"
  by (simp add: handleVirtualPress_def Let_def)

lemma transitions_release:
  "transitions (handleVirtualRelease api ref b p) = [(b, Up)]"
  by (simp add: handleVirtualRelease_def Let_def)

lemma alternating_append:
  "alternating c (xs @ ys) = (alternating c xs \<and> alternating (after c xs) ys)"
  by (induction c xs rule: alternating.induct) simp_all

lemma after_append: "after c (xs @ ys) = after (after c xs) ys"
  by (induction c xs rule: after.induct) simp_all

lemma handleDpadMove_transitions:
  "transitions (snd (handleDpadMove api ref e r a)) =
     (if pointer_zone e r = a then []
      else (case a of Some d \<Rightarrow> [(direction_name d, Up)] | None \<Rightarrow> [])
           @ (case pointer_zone e r of Some d \<Rightarrow> [(direction_name d, Down)] | None \<Rightarrow> []))
   \<and> fst (handleDpadMove api ref e r a) = pointer_zone e r"
  by (auto simp: handleDpadMove_def Let_def transitions_append transitions_press
        transitions_release split: option.splits)

lemma handleDpadEnd_transitions:
  "transitions (snd (handleDpadEnd api ref a)) =
     (case a of Some d \<Rightarrow> [(direction_name d, Up)] | None \<Rightarrow> [])
   \<and> fst (handleDpadEnd api ref a) = None"
  by (auto simp: handleDpadEnd_def transitions_release split: option.splits)

lemma dpad_step_alternating:
  assumes "is_dpad_event ev"
  shows "alternating (map_option direction_name a) (transitions (snd (on_screen api ref ev a)))
       \<and> after (map_option direction_name a) (transitions (snd (on_screen api ref ev a)))
           = map_option direction_name (fst (on_screen api ref ev a))"
proof (cases ev)
  case (DpadStart e r)
  then show ?thesis
    using handleDpadMove_transitions[of api ref e r a]
    by (cases a; cases "pointer_zone e r") (auto simp: handleDpadStart_def)
next
  case (DpadMove e r)
  then show ?thesis
    using handleDpadMove_transitions[of api ref e r a]
    by (cases a; cases "pointer_zone e r") auto
next
  case DpadEnd
  then show ?thesis
    using handleDpadEnd_transitions[of api ref a] by (cases a) auto
qed (use assms in auto)

lemma dpad_run_alternating:
  "list_all is_dpad_event evs \<Longrightarrow>
     alternating (map_option direction_name a) (transitions (snd (on_screen_run api ref evs a)))
     \<and> after (map_option direction_name a) (transitions (snd (on_screen_run api ref evs a)))
         = map_option direction_name (fst (on_screen_run api ref evs a))"
proof (induction evs arbitrary: a)
  case Nil
  show ?case by simp
next
  case (Cons ev evs)
  obtain a1 effs1 where s1: "on_screen api ref ev a = (a1, effs1)" by force
  obtain a2 effs2 where s2: "on_screen_run api ref evs a1 = (a2, effs2)" by force
  from Cons.prems have d: "is_dpad_event ev" and ds: "list_all is_dpad_event evs" by simp_all
  from dpad_step_alternating[OF d, of a api ref] s1
  have h1: "alternating (map_option direction_name a) (transitions effs1)"
    and h2: "after (map_option direction_name a) (transitions effs1) = map_option direction_name a1"
    by simp_all
  from Cons.IH[OF ds, of a1] s2
  have h3: "alternating (map_option direction_name a1) (transitions effs2)"
    and h4: "after (map_option direction_name a1) (transitions effs2) = map_option direction_name a2"
    by simp_all
  from h1 h2 h3 h4 s1 s2 show ?case
    by (simp add: transitions_append alternating_append after_append)
qed

text \<open>
  The rounding is to a nearest double: the exponent found is the binary exponent, the
  integer chosen is a nearest one, so the result is a multiple of the spacing of its
  binade and differs from the exact value by at most half of that spacing.
\<close>

lemma round_even_nearest: "\<bar>of_int (round_even q) - q\<bar> \<le> 1 / 2"
proof -
  have "of_int \<lfloor>q\<rfloor> \<le> q" "q < of_int \<lfloor>q\<rfloor> + 1" by linarith+
  then show ?thesis
    by (auto simp: round_even_def Let_def abs_le_iff)
qed

lemma ilog2_bounds:
  assumes "0 < a"
  shows "pow2 (ilog2 a) \<le> a \<and> a < pow2 (ilog2 a + 1)"
proof (cases "1 \<le> a")
  case True
  define n where "n = \<lfloor>a\<rfloor>"
  have n1: "1 \<le> n" using True by (simp add: n_def)
  then have npos: "0 < n" by simp
  define k where "k = bitlen n"
  from bitlen_bounds[OF npos] have b: "2 ^ nat (k - 1) \<le> n" "n < 2 ^ nat k"
    by (simp_all add: k_def)
  have kpos: "1 \<le> k" using npos by (simp add: k_def bitlen_def floorlog_def)
  have "(of_int n :: rat) \<le> a" "a < of_int n + 1" by (simp_all add: n_def) linarith
  moreover have "(2 :: rat) ^ nat (k - 1) \<le> of_int n"
    using b(1) by (metis of_int_le_iff of_int_numeral of_int_power)
  moreover have "(of_int n :: rat) + 1 \<le> 2 ^ nat k"
  proof -
    from b(2) have "n + 1 \<le> 2 ^ nat k" by simp
    then have "(of_int (n + 1) :: rat) \<le> of_int (2 ^ nat k)" by (simp only: of_int_le_iff)
    then show ?thesis by simp
  qed
  ultimately have "(2 :: rat) ^ nat (k - 1) \<le> a" "a < 2 ^ nat k" by linarith+
  moreover have "ilog2 a = k - 1" using True by (simp add: ilog2_def n_def k_def)
  ultimately show ?thesis using kpos by (simp add: pow2_def)
next
  case False
  then have a1: "a < 1" by simp
  define b where "b = 1 / a"
  have b1: "1 < b" using assms a1 by (simp add: b_def)
  define m where "m = \<lceil>b\<rceil>"
  have m2: "2 \<le> m" using b1 by (simp add: m_def)
  then have mpos: "0 < m - 1" by simp
  define k where "k = bitlen (m - 1)"
  from bitlen_bounds[OF mpos] have bb: "2 ^ nat (k - 1) \<le> m - 1" "m - 1 < 2 ^ nat k"
    by (simp_all add: k_def)
  have kpos: "1 \<le> k" using mpos by (simp add: k_def bitlen_def floorlog_def)
  have c: "b \<le> of_int m" "of_int m - 1 < b" by (simp_all add: m_def) linarith
  have u: "(of_int m :: rat) \<le> 2 ^ nat k"
  proof -
    from bb(2) have "m \<le> 2 ^ nat k" by simp
    then have "(of_int m :: rat) \<le> of_int (2 ^ nat k)" by (simp only: of_int_le_iff)
    then show ?thesis by simp
  qed
  have l: "(2 :: rat) ^ nat (k - 1) \<le> of_int m - 1"
  proof -
    from bb(1) have "(of_int (2 ^ nat (k - 1)) :: rat) \<le> of_int (m - 1)" by (simp only: of_int_le_iff)
    then show ?thesis by simp
  qed
  from c u l have r: "(2 :: rat) ^ nat (k - 1) < b" "b \<le> 2 ^ nat k" by linarith+
  have e: "ilog2 a = - k" using False by (simp add: ilog2_def b_def m_def k_def)
  have p1: "pow2 (- k) = 1 / 2 ^ nat k" using kpos by (simp add: pow2_def)
  have p2: "pow2 (1 - k) = 1 / 2 ^ nat (k - 1)"
    using kpos by (cases "k = 1") (simp_all add: pow2_def)
  have "1 / 2 ^ nat k \<le> a"
    using r(2) assms by (simp add: b_def field_simps)
  moreover have "a < 1 / 2 ^ nat (k - 1)"
    using r(1) assms by (simp add: b_def field_simps)
  ultimately show ?thesis by (simp add: e p1 p2)
qed

lemma pow2_pos: "0 < pow2 e"
  by (simp add: pow2_def)

lemma round_double_nearest:
  assumes "round_double q = Finite r"
  shows "(\<exists>n. r = of_int n * pow2 (max (ilog2 \<bar>q\<bar>) (- 1022) - 52))
       \<and> \<bar>r - q\<bar> \<le> pow2 (max (ilog2 \<bar>q\<bar>) (- 1022) - 52) / 2"
proof (cases "q = 0")
  case True
  with assms have "r = 0" by (simp add: round_double_def)
  then show ?thesis using True pow2_pos[of "max (ilog2 \<bar>q\<bar>) (- 1022) - 52"]
    by (auto intro: exI[of _ 0])
next
  case False
  define u where "u = pow2 (max (ilog2 \<bar>q\<bar>) (- 1022) - 52)"
  define n where "n = round_even (\<bar>q\<bar> / u)"
  have upos: "0 < u" by (simp add: u_def pow2_pos)
  from assms False have r: "r = (if 0 < q then of_int n * u else - (of_int n * u))"
    by (simp add: round_double_def Let_def u_def n_def split: if_splits)
  have "\<bar>of_int n - \<bar>q\<bar> / u\<bar> \<le> 1 / 2"
    unfolding n_def by (rule round_even_nearest)
  then have "\<bar>of_int n - \<bar>q\<bar> / u\<bar> * u \<le> 1 / 2 * u"
    using upos by (simp only: mult_le_cancel_right_pos)
  moreover have "\<bar>of_int n - \<bar>q\<bar> / u\<bar> * u = \<bar>of_int n * u - \<bar>q\<bar>\<bar>"
  proof -
    have "\<bar>of_int n - \<bar>q\<bar> / u\<bar> * u = \<bar>(of_int n - \<bar>q\<bar> / u) * u\<bar>"
      using upos by (simp add: abs_mult)
    also have "(of_int n - \<bar>q\<bar> / u) * u = of_int n * u - \<bar>q\<bar>"
      using upos by (simp add: left_diff_distrib)
    finally show ?thesis .
  qed
  ultimately have d: "\<bar>of_int n * u - \<bar>q\<bar>\<bar> \<le> u / 2" by simp
  have "\<bar>r - q\<bar> \<le> u / 2"
    using d r False by (auto simp: abs_if split: if_splits)
  moreover have "\<exists>k. r = of_int k * u"
    using r by (auto intro: exI[of _ n] exI[of _ "- n"])
  ultimately show ?thesis unfolding u_def by blast
qed

lemma pointer_zone_ratios:
  assumes "touches e = [] \<and> clientX e = Some cx \<and> clientY e = Some cy
           \<or> touches e = (cx, cy) # rest"
  shows "pointer_zone e r
       = zone (js_div (js_sub (Some cx) (rect_left r)) (rect_width r))
              (js_div (js_sub (Some cy) (rect_top r)) (rect_height r))"
  using assms by (auto simp: pointer_zone_def)

lemma literal_cuts:
  "round_double (33 / 100) = Finite cut_033 \<and> round_double (67 / 100) = Finite cut_067"
  by code_simp

lemma zone_cuts:
  "(yr < cut_033 \<longrightarrow> zone xRatio (Finite yr) = Some DirUp)
   \<and> (cut_067 < yr \<longrightarrow> zone xRatio (Finite yr) = Some DirDown)
   \<and> (cut_033 \<le> yr \<and> yr \<le> cut_067 \<longrightarrow>
        zone (Finite xr) (Finite yr) = (if xr < cut_033 then Some DirLeft
                                        else if cut_067 < xr then Some DirRight else None))"
  by (auto simp: zone_def cut_033_def cut_067_def)

text \<open>
  The quotient is the rounded one. With \<^verbatim>\<open>clientY\<close> the double nearest to 99.1 and
  \<^verbatim>\<open>rect.top\<close> the double nearest to 0.1 on a pad 300 high, the difference rounds to
  99 and 99/300 rounds to the very double that 0.33 denotes, so the point is not up,
  although the exact quotient of the exact difference lies below that double.
\<close>

lemma dpad_rounded_quotient:
  "js_sub (Some (3486771274003251 / 35184372088832)) (3602879701896397 / 36028797018963968)
     = Finite 99
   \<and> js_div (Finite 99) 300 = Finite cut_033
   \<and> (3486771274003251 / 35184372088832 - 3602879701896397 / 36028797018963968) / 300
       < cut_033
   \<and> pointer_zone
        \<lparr>touches = [], clientX = Some 150, clientY = Some (3486771274003251 / 35184372088832)\<rparr>
        \<lparr>rect_left = 0, rect_top = 3602879701896397 / 36028797018963968,
         rect_width = 300, rect_height = 300\<rparr> = None"
proof -
  have a: "js_sub (Some (3486771274003251 / 35184372088832))
             (3602879701896397 / 36028797018963968) = Finite 99"
    by code_simp
  have b: "js_div (Finite 99) 300 = Finite cut_033"
    by code_simp
  have c: "(3486771274003251 / 35184372088832 - 3602879701896397 / 36028797018963968) / 300
       < cut_033"
    by (simp add: cut_033_def)
  have x: "js_div (js_sub (Some 150) 0) 300 = Finite (1 / 2)"
    by code_simp
  have "pointer_zone
        \<lparr>touches = [], clientX = Some 150, clientY = Some (3486771274003251 / 35184372088832)\<rparr>
        \<lparr>rect_left = 0, rect_top = 3602879701896397 / 36028797018963968,
         rect_width = 300, rect_height = 300\<rparr>
      = zone (Finite (1 / 2)) (Finite cut_033)"
    using a b x by (simp add: pointer_zone_def)
  also have "\<dots> = None"
    by (simp add: zone_def cut_033_def cut_067_def)
  finally show ?thesis using a b c by blast
qed

text \<open>
  C6, as stated, fails on the thirds. On a pad 1000 wide and 1000 high, the point 332
  below the top edge is in the top third, yet it is not classified as up: the cut point
  is 0.33 of the height.
\<close>

theorem dpad_top_third_counterexample:
  "(332::rat) / 1000 < 1 / 3
   \<and> pointer_zone \<lparr>touches = [], clientX = Some 500, clientY = Some 332\<rparr>
        \<lparr>rect_left = 0, rect_top = 0, rect_width = 1000, rect_height = 1000\<rparr> = None
   \<and> handleDpadMove \<lparr>has_press = True, has_pressDown = True, has_pressUp = True,
          has_sendCommand = False, has_saveState = True, has_loadState = True\<rparr> (Some 0) \<lparr>touches = [], clientX = Some 500, clientY = Some 332\<rparr>
        \<lparr>rect_left = 0, rect_top = 0, rect_width = 1000, rect_height = 1000\<rparr> None
       = (None, [])"
proof -
  have x: "js_div (js_sub (Some 500) 0) 1000 = Finite (1 / 2)"
    by code_simp
  have y: "js_div (js_sub (Some 332) 0) 1000 = Finite (5980780305148019 / 18014398509481984)"
    by code_simp
  have z: "pointer_zone \<lparr>touches = [], clientX = Some 500, clientY = Some 332\<rparr>
        \<lparr>rect_left = 0, rect_top = 0, rect_width = 1000, rect_height = 1000\<rparr> = None"
    using x y by (simp add: pointer_zone_def zone_def cut_033_def cut_067_def)
  show ?thesis using z by (simp add: handleDpadMove_def)
qed

text \<open>
  C6, amended. For every contact point, the zone is decided by the fractions x/w and
  y/h of the point within the pad as the code computes them (in double precision), cut
  at the doubles 0.33 and 0.67, the vertical test first: up when y/h is below 0.33
  whatever x/w is, down when y/h is above 0.67 whatever x/w is, otherwise left when x/w
  is below 0.33, right when it is above 0.67, and neutral otherwise.
  A move that changes the zone emits the up transition of the direction that was active
  (if any) and then the down transition of the new direction (if any), and a move within
  the zone emits nothing. Over every sequence of d-pad events the transitions alternate
  (a down only when nothing is down, an up only for the direction that is down), so at
  most one direction is active at any time, and the direction left down is the stored
  one.
\<close>

theorem dpad_zones_and_transitions:
  "((touches e = [] \<and> clientX e = Some cx \<and> clientY e = Some cy
      \<or> touches e = (cx, cy) # rest) \<longrightarrow>
      pointer_zone e r
        = zone (js_div (js_sub (Some cx) (rect_left r)) (rect_width r))
               (js_div (js_sub (Some cy) (rect_top r)) (rect_height r)))
   \<and> (yr < cut_033 \<longrightarrow> zone xRatio (Finite yr) = Some DirUp)
   \<and> (cut_067 < yr \<longrightarrow> zone xRatio (Finite yr) = Some DirDown)
   \<and> (cut_033 \<le> yr \<and> yr \<le> cut_067 \<longrightarrow>
        zone (Finite xr) (Finite yr) = (if xr < cut_033 then Some DirLeft
                                        else if cut_067 < xr then Some DirRight else None))
   \<and> transitions (snd (handleDpadMove api ref e r a)) =
       (if pointer_zone e r = a then []
        else (case a of Some d \<Rightarrow> [(direction_name d, Up)] | None \<Rightarrow> [])
             @ (case pointer_zone e r of Some d \<Rightarrow> [(direction_name d, Down)] | None \<Rightarrow> []))
   \<and> fst (handleDpadMove api ref e r a) = pointer_zone e r
   \<and> (list_all is_dpad_event evs \<longrightarrow>
        alternating (map_option direction_name a)
          (transitions (snd (on_screen_run api ref evs a)))
        \<and> after (map_option direction_name a)
            (transitions (snd (on_screen_run api ref evs a)))
          = map_option direction_name (fst (on_screen_run api ref evs a)))"
  using zone_cuts[of yr xRatio xr] pointer_zone_ratios[of e cx cy rest r]
    handleDpadMove_transitions[of api ref e r a] dpad_run_alternating[of evs a api ref]
  by blast

theorem dpad_zones_and_transitions_witness:
  "pointer_zone \<lparr>touches = [], clientX = Some 160, clientY = Some 70\<rparr>
        \<lparr>rect_left = 10, rect_top = 20, rect_width = 300, rect_height = 300\<rparr>
     = zone (Finite (1 / 2)) (Finite (6004799503160661 / 36028797018963968))
   \<and> 6004799503160661 / 36028797018963968 < cut_033
   \<and> zone (Finite (1 / 2)) (Finite (6004799503160661 / 36028797018963968)) = Some DirUp
   \<and> list_all is_dpad_event
        [DpadStart \<lparr>touches = [], clientX = Some 160, clientY = Some 70\<rparr>
           \<lparr>rect_left = 10, rect_top = 20, rect_width = 300, rect_height = 300\<rparr>,
         DpadMove \<lparr>touches = [], clientX = Some 40, clientY = Some 170\<rparr>
           \<lparr>rect_left = 10, rect_top = 20, rect_width = 300, rect_height = 300\<rparr>,
         DpadEnd]
   \<and> transitions (snd (on_screen_run
        \<lparr>has_press = True, has_pressDown = True, has_pressUp = True,
          has_sendCommand = False, has_saveState = True, has_loadState = True\<rparr> (Some 0)
        [DpadStart \<lparr>touches = [], clientX = Some 160, clientY = Some 70\<rparr>
           \<lparr>rect_left = 10, rect_top = 20, rect_width = 300, rect_height = 300\<rparr>,
         DpadMove \<lparr>touches = [], clientX = Some 40, clientY = Some 170\<rparr>
           \<lparr>rect_left = 10, rect_top = 20, rect_width = 300, rect_height = 300\<rparr>,
         DpadEnd] None))
       = [(''up'', Down), (''up'', Up), (''left'', Down), (''left'', Up)]
   \<and> alternating None [(''up'', Down), (''up'', Up), (''left'', Down), (''left'', Up)]"
proof -
  let ?r = "\<lparr>rect_left = 10, rect_top = 20, rect_width = 300, rect_height = 300\<rparr>"
  let ?e = "\<lparr>touches = [], clientX = Some 160, clientY = Some 70\<rparr>"
  let ?e2 = "\<lparr>touches = [], clientX = Some 40, clientY = Some 170\<rparr>"
  let ?api = "\<lparr>has_press = True, has_pressDown = True, has_pressUp = True,
          has_sendCommand = False, has_saveState = True, has_loadState = True\<rparr>"
  let ?evs = "[DpadStart ?e ?r, DpadMove ?e2 ?r, DpadEnd]"
  let ?y = "6004799503160661 / 36028797018963968 :: rat"
  have x1: "js_div (js_sub (Some 160) 10) 300 = Finite (1 / 2)"
    by code_simp
  have y1: "js_div (js_sub (Some 70) 20) 300 = Finite ?y"
    by code_simp
  have x2: "js_div (js_sub (Some 40) 10) 300 = Finite (3602879701896397 / 36028797018963968)"
    by code_simp
  have y2: "js_div (js_sub (Some 170) 20) 300 = Finite (1 / 2)"
    by code_simp
  have lt: "?y < cut_033" by (simp add: cut_033_def)
  have d: "list_all is_dpad_event ?evs" by simp
  note th = dpad_zones_and_transitions
    [where r = ?r and e = ?e and cx = 160 and cy = 70 and rest = "[]" and xr = "1 / 2"
       and xRatio = "Finite (1 / 2)" and yr = ?y and api = ?api and ref = "Some 0"
       and a = None and evs = ?evs]
  from th x1 y1 have z: "pointer_zone ?e ?r = zone (Finite (1 / 2)) (Finite ?y)" by simp
  from th lt have u: "zone (Finite (1 / 2)) (Finite ?y) = Some DirUp" by blast
  have z2: "pointer_zone ?e2 ?r = Some DirLeft"
    using x2 y2 by (simp add: pointer_zone_def zone_def cut_033_def cut_067_def)
  have t: "transitions (snd (on_screen_run ?api (Some 0) ?evs None))
       = [(''up'', Down), (''up'', Up), (''left'', Down), (''left'', Up)]"
    using z u z2
    by (simp add: handleDpadStart_def handleDpadMove_def handleDpadEnd_def
          handleVirtualPress_def handleVirtualRelease_def toCoreId_def Let_def)
  from th d have "alternating (map_option direction_name None)
      (transitions (snd (on_screen_run ?api (Some 0) ?evs None)))" by blast
  then have al: "alternating None [(''up'', Down), (''up'', Up), (''left'', Down), (''left'', Up)]"
    unfolding t by simp
  from z lt u d t al show ?thesis by simp
qed

subsection \<open>Gamepad edge detection\<close>

lemma edges_append: "edges p (xs @ ys) = edges p xs @ edges (last_or p xs) ys"
  by (induction xs arbitrary: p) (auto simp: last_or_def)

lemma last_or_append: "last_or p (xs @ ys) = last_or (last_or p xs) ys"
  by (auto simp: last_or_def)

lemma emitted_append: "emitted tag (xs @ ys) = emitted tag xs @ emitted tag ys"
  by (simp add: emitted_def)

lemma emitted_Nil: "emitted tag [] = []"
  by (simp add: emitted_def)

lemma emitted_edge:
  "emitted tag (map (Pair tag') (edge c pl act was)) =
     (if tag' = tag then edges was [act] else [])"
  by (auto simp: emitted_def edge_def)

lemma poll_buttons_Cons_mapped:
  assumes "GAMEPAD_MAPPING idx = Some snes"
  shows "snd (poll_buttons gi pl idx (btn # rest) bst)
        = map (Pair (gi, FromButton idx)) (edge snes pl (isPressed btn) (bst idx = Some True))
          @ snd (poll_buttons gi pl (Suc idx) rest (bst(idx \<mapsto> isPressed btn)))"
    and "fst (poll_buttons gi pl idx (btn # rest) bst)
        = fst (poll_buttons gi pl (Suc idx) rest (bst(idx \<mapsto> isPressed btn)))"
  using assms by (simp_all add: Let_def split: prod.splits)

lemma poll_buttons_Cons_unmapped:
  assumes "GAMEPAD_MAPPING idx = None"
  shows "poll_buttons gi pl idx (btn # rest) bst = poll_buttons gi pl (Suc idx) rest bst"
  using assms by simp

lemma poll_buttons_state:
  "(fst (poll_buttons gi pl idx btns bst) j = Some True) =
     (if idx \<le> j \<and> j < idx + length btns \<and> GAMEPAD_MAPPING j \<noteq> None
      then isPressed (btns ! (j - idx)) else bst j = Some True)"
proof (induction btns arbitrary: idx bst)
  case Nil
  show ?case by auto
next
  case (Cons btn rest)
  show ?case
  proof (cases "GAMEPAD_MAPPING idx")
    case None
    show ?thesis
      unfolding poll_buttons_Cons_unmapped[OF None] Cons.IH
      using None by (cases "j = idx") (auto simp: nth_Cons' Suc_diff_le)
  next
    case (Some snes)
    show ?thesis
      unfolding poll_buttons_Cons_mapped(2)[OF Some] Cons.IH
      using Some by (cases "j = idx") (auto simp: nth_Cons' Suc_diff_le)
  qed
qed

lemma poll_buttons_emitted_button:
  "emitted (gi, FromButton j) (snd (poll_buttons gi pl idx btns bst)) =
     (if idx \<le> j \<and> j < idx + length btns \<and> GAMEPAD_MAPPING j \<noteq> None
      then edges (bst j = Some True) [isPressed (btns ! (j - idx))] else [])"
proof (induction btns arbitrary: idx bst)
  case Nil
  show ?case by (auto simp: emitted_Nil)
next
  case (Cons btn rest)
  show ?case
  proof (cases "GAMEPAD_MAPPING idx")
    case None
    show ?thesis
      unfolding poll_buttons_Cons_unmapped[OF None] Cons.IH
      using None by (cases "j = idx") (auto simp: nth_Cons' Suc_diff_le)
  next
    case (Some snes)
    show ?thesis
      unfolding poll_buttons_Cons_mapped(1)[OF Some] emitted_append emitted_edge Cons.IH
      using Some by (cases "j = idx") (auto simp: nth_Cons' Suc_diff_le)
  qed
qed

lemma poll_buttons_emitted_other:
  "i \<noteq> gi \<or> (\<exists>d. src = FromStick d) \<Longrightarrow>
     emitted (i, src) (snd (poll_buttons gi pl idx btns bst)) = []"
proof (induction btns arbitrary: idx bst)
  case Nil
  show ?case by (simp add: emitted_Nil)
next
  case (Cons btn rest)
  show ?case
  proof (cases "GAMEPAD_MAPPING idx")
    case None
    show ?thesis
      unfolding poll_buttons_Cons_unmapped[OF None] using Cons by simp
  next
    case (Some snes)
    show ?thesis
      unfolding poll_buttons_Cons_mapped(1)[OF Some] emitted_append emitted_edge
      using Cons by auto
  qed
qed

lemma poll_axes_emitted:
  "emitted (i, src) (snd (poll_axes gi pl (axes gp) ast)) =
     (case src of
        FromButton j \<Rightarrow> []
      | FromStick d \<Rightarrow> if i = gi then edges (axis_flag d ast) (sample_of (FromStick d) gp) else [])"
proof (cases src)
  case (FromButton j)
  then show ?thesis
    by (simp add: poll_axes_def Let_def emitted_append emitted_edge)
next
  case (FromStick d)
  then show ?thesis
    by (cases d) (auto simp: poll_axes_def Let_def emitted_append emitted_edge)
qed

lemma poll_axes_state:
  "axis_flag d (fst (poll_axes gi pl (axes gp) ast)) = last (sample_of (FromStick d) gp)"
  by (cases d) (simp_all add: poll_axes_def Let_def)

lemma sample_of_stick_single: "\<exists>b. sample_of (FromStick d) gp = [b]"
  by (cases d) simp_all

lemma poll_pad_unfold:
  "snd (poll_pad gp st) =
     snd (poll_buttons (index gp) (if index gp = 0 then ''p1'' else ''p2'') 0 (buttons gp)
            (case buttons_state st (index gp) of None \<Rightarrow> Map.empty | Some b \<Rightarrow> b))
     @ snd (poll_axes (index gp) (if index gp = 0 then ''p1'' else ''p2'') (axes gp)
              (case axes_state st (index gp) of
                 None \<Rightarrow> \<lparr>ax_up = False, ax_down = False, ax_left = False, ax_right = False\<rparr>
               | Some a \<Rightarrow> a))"
  "buttons_state (fst (poll_pad gp st)) =
     (buttons_state st)(index gp \<mapsto>
        fst (poll_buttons (index gp) (if index gp = 0 then ''p1'' else ''p2'') 0 (buttons gp)
               (case buttons_state st (index gp) of None \<Rightarrow> Map.empty | Some b \<Rightarrow> b)))"
  "axes_state (fst (poll_pad gp st)) =
     (axes_state st)(index gp \<mapsto>
        fst (poll_axes (index gp) (if index gp = 0 then ''p1'' else ''p2'') (axes gp)
               (case axes_state st (index gp) of
                  None \<Rightarrow> \<lparr>ax_up = False, ax_down = False, ax_left = False, ax_right = False\<rparr>
                | Some a \<Rightarrow> a)))"
  by (simp_all add: poll_pad_def Let_def split: prod.splits)

lemma poll_pad_source:
  "emitted (i, src) (snd (poll_pad gp st)) = edges (stored_flag st i src) (pad_samples i src gp)
   \<and> stored_flag (fst (poll_pad gp st)) i src = last_or (stored_flag st i src) (pad_samples i src gp)"
proof (cases "index gp = i")
  case False
  then have ne: "i \<noteq> index gp" by simp
  have "emitted (i, src) (snd (poll_pad gp st)) = []"
    unfolding poll_pad_unfold emitted_append
    using ne poll_buttons_emitted_other[of i "index gp" src]
    by (simp add: poll_axes_emitted split: source.splits)
  moreover have "stored_flag (fst (poll_pad gp st)) i src = stored_flag st i src"
    using ne by (cases src) (simp_all add: poll_pad_unfold)
  ultimately show ?thesis using False by (simp add: pad_samples_def last_or_def)
next
  case True
  show ?thesis
  proof (cases src)
    case (FromButton j)
    have e: "emitted (i, src) (snd (poll_pad gp st))
        = edges (stored_flag st i src) (pad_samples i src gp)"
      unfolding poll_pad_unfold emitted_append
      using True FromButton
      by (auto simp: poll_buttons_emitted_button poll_axes_emitted pad_samples_def
            split: option.splits)
    have s: "stored_flag (fst (poll_pad gp st)) i src
        = last_or (stored_flag st i src) (pad_samples i src gp)"
      using True FromButton
      by (auto simp: poll_pad_unfold poll_buttons_state pad_samples_def last_or_def
            split: option.splits)
    from e s show ?thesis by blast
  next
    case (FromStick d)
    obtain b where b: "sample_of (FromStick d) gp = [b]"
      using sample_of_stick_single by blast
    have e: "emitted (i, src) (snd (poll_pad gp st))
        = edges (stored_flag st i src) (pad_samples i src gp)"
      unfolding poll_pad_unfold emitted_append
      using True FromStick poll_buttons_emitted_other[of i "index gp" src]
      by (cases d) (auto simp: poll_axes_emitted pad_samples_def split: option.splits)
    have s: "stored_flag (fst (poll_pad gp st)) i src
        = last_or (stored_flag st i src) (pad_samples i src gp)"
      using True FromStick b
      by (simp add: poll_pad_unfold poll_axes_state pad_samples_def last_or_def)
    from e s show ?thesis by blast
  qed
qed

lemma poll_pads_source:
  "emitted (i, src) (snd (poll_pads pads st)) = edges (stored_flag st i src) (pads_samples i src pads)
   \<and> stored_flag (fst (poll_pads pads st)) i src = last_or (stored_flag st i src) (pads_samples i src pads)"
proof (induction pads st rule: poll_pads.induct)
  case (1 st)
  show ?case by (simp add: emitted_Nil last_or_def)
next
  case (2 rest st)
  then show ?case by simp
next
  case (3 gp rest st)
  obtain st1 evs1 where r1: "poll_pad gp st = (st1, evs1)" by force
  obtain st2 evs2 where r2: "poll_pads rest st1 = (st2, evs2)" by force
  from poll_pad_source[of i src gp st] r1
  have h1: "emitted (i, src) evs1 = edges (stored_flag st i src) (pad_samples i src gp)"
    and h2: "stored_flag st1 i src = last_or (stored_flag st i src) (pad_samples i src gp)"
    by simp_all
  from "3.IH"[OF r1[symmetric] refl] r2
  have h3: "emitted (i, src) evs2 = edges (stored_flag st1 i src) (pads_samples i src rest)"
    and h4: "stored_flag st2 i src = last_or (stored_flag st1 i src) (pads_samples i src rest)"
    by simp_all
  from h1 h2 h3 h4 r1 r2 show ?case
    by (simp add: emitted_append edges_append last_or_append)
qed

lemma pollGamepad_source:
  "emitted (i, src) (snd (pollGamepad p st)) = edges (stored_flag st i src) (poll_samples i src p)
   \<and> stored_flag (fst (pollGamepad p st)) i src = last_or (stored_flag st i src) (poll_samples i src p)"
  using poll_pads_source[of i src "gps p" st]
  by (auto simp: pollGamepad_def poll_samples_def emitted_Nil last_or_def)

lemma run_polls_source:
  "emitted (i, src) (snd (run_polls ps st)) = edges (stored_flag st i src) (samples i src ps)
   \<and> stored_flag (fst (run_polls ps st)) i src = last_or (stored_flag st i src) (samples i src ps)"
proof (induction ps arbitrary: st)
  case Nil
  show ?case by (simp add: emitted_Nil last_or_def samples_def)
next
  case (Cons p ps)
  obtain st1 evs1 where r1: "pollGamepad p st = (st1, evs1)" by force
  obtain st2 evs2 where r2: "run_polls ps st1 = (st2, evs2)" by force
  from pollGamepad_source[of i src p st] r1
  have h1: "emitted (i, src) evs1 = edges (stored_flag st i src) (poll_samples i src p)"
    and h2: "stored_flag st1 i src = last_or (stored_flag st i src) (poll_samples i src p)"
    by simp_all
  from Cons.IH[of st1] r2
  have h3: "emitted (i, src) evs2 = edges (stored_flag st1 i src) (samples i src ps)"
    and h4: "stored_flag st2 i src = last_or (stored_flag st1 i src) (samples i src ps)"
    by simp_all
  have sm: "samples i src (p # ps) = poll_samples i src p @ samples i src ps"
    by (simp add: samples_def)
  from h1 h2 h3 h4 r1 r2 show ?case
    by (simp add: sm emitted_append edges_append last_or_append)
qed

lemma edges_steady: "\<forall>s \<in> set ss. s = p \<Longrightarrow> edges p ss = []"
  by (induction ss) auto

lemma edges_rise: "edges False (True # replicate n True) = [Down]"
  by (simp add: edges_steady)

lemma edges_fall: "edges True (False # replicate n False) = [Up]"
  by (simp add: edges_steady)

lemma edge_tagged:
  "source_control src = Some c \<Longrightarrow>
     \<forall>te \<in> set (map (Pair (gi, src)) (edge c (if gi = 0 then ''p1'' else ''p2'') act was)).
        well_tagged te"
  by (auto simp: edge_def)

lemma poll_buttons_tagged:
  "\<forall>te \<in> set (snd (poll_buttons gi (if gi = 0 then ''p1'' else ''p2'') idx btns bst)).
     well_tagged te"
proof (induction btns arbitrary: idx bst)
  case Nil
  show ?case by simp
next
  case (Cons btn rest)
  show ?case
  proof (cases "GAMEPAD_MAPPING idx")
    case None
    show ?thesis unfolding poll_buttons_Cons_unmapped[OF None] using Cons.IH by blast
  next
    case (Some snes)
    show ?thesis
      unfolding poll_buttons_Cons_mapped(1)[OF Some]
      using Cons.IH[of "Suc idx"] edge_tagged[of "FromButton idx" snes gi] Some
      by (simp add: ball_Un)
  qed
qed

lemma poll_axes_tagged:
  "\<forall>te \<in> set (snd (poll_axes gi (if gi = 0 then ''p1'' else ''p2'') as ast)). well_tagged te"
  using edge_tagged[of "FromStick DirLeft" "''left''" gi]
    edge_tagged[of "FromStick DirRight" "''right''" gi]
    edge_tagged[of "FromStick DirUp" "''up''" gi]
    edge_tagged[of "FromStick DirDown" "''down''" gi]
  by (simp add: poll_axes_def Let_def ball_Un)

lemma poll_pad_tagged: "\<forall>te \<in> set (snd (poll_pad gp st)). well_tagged te"
  unfolding poll_pad_unfold
  using poll_buttons_tagged[of "index gp"] poll_axes_tagged[of "index gp"]
  by (simp add: ball_Un)

lemma poll_pads_tagged: "\<forall>te \<in> set (snd (poll_pads pads st)). well_tagged te"
proof (induction pads st rule: poll_pads.induct)
  case (1 st)
  show ?case by simp
next
  case (2 rest st)
  then show ?case by simp
next
  case (3 gp rest st)
  obtain st1 evs1 where r1: "poll_pad gp st = (st1, evs1)" by force
  obtain st2 evs2 where r2: "poll_pads rest st1 = (st2, evs2)" by force
  from poll_pad_tagged[of gp st] r1 have "\<forall>te \<in> set evs1. well_tagged te" by simp
  moreover from "3.IH"[OF r1[symmetric] refl] r2 have "\<forall>te \<in> set evs2. well_tagged te" by simp
  ultimately show ?case using r1 r2 by (simp add: ball_Un)
qed

lemma run_polls_tagged: "\<forall>te \<in> set (snd (run_polls ps st)). well_tagged te"
proof (induction ps arbitrary: st)
  case Nil
  show ?case by simp
next
  case (Cons p ps)
  obtain st1 evs1 where r1: "pollGamepad p st = (st1, evs1)" by force
  obtain st2 evs2 where r2: "run_polls ps st1 = (st2, evs2)" by force
  from poll_pads_tagged[of "gps p" st] r1 have "\<forall>te \<in> set evs1. well_tagged te"
    by (auto simp: pollGamepad_def split: if_splits)
  moreover from Cons.IH[of st1] r2 have "\<forall>te \<in> set evs2. well_tagged te" by simp
  ultimately show ?case using r1 r2 by (simp add: ball_Un)
qed

lemma stick_deadzone:
  "(\<bar>axis_or_0 (axes gp) 0\<bar> \<le> 1 / 4 \<longrightarrow>
      sample_of (FromStick DirLeft) gp = [False] \<and> sample_of (FromStick DirRight) gp = [False])
   \<and> (\<bar>axis_or_0 (axes gp) 1\<bar> \<le> 1 / 4 \<longrightarrow>
      sample_of (FromStick DirUp) gp = [False] \<and> sample_of (FromStick DirDown) gp = [False])
   \<and> (axis_or_0 (axes gp) 0 < - (1 / 4) \<longrightarrow> sample_of (FromStick DirLeft) gp = [True])
   \<and> (1 / 4 < axis_or_0 (axes gp) 0 \<longrightarrow> sample_of (FromStick DirRight) gp = [True])
   \<and> (axis_or_0 (axes gp) 1 < - (1 / 4) \<longrightarrow> sample_of (FromStick DirUp) gp = [True])
   \<and> (1 / 4 < axis_or_0 (axes gp) 1 \<longrightarrow> sample_of (FromStick DirDown) gp = [True])"
  by (auto simp: DEADZONE_def)

text \<open>
  C2. For every sequence of gamepad polls, from every stored state, and for every source
  (a mapped button of a gamepad, or one direction of its left stick): the transitions
  the polls emit for that source are exactly the changes of its sampled state against
  the state stored before, and the state stored afterwards is the last sample. Hence no
  transition is emitted while the samples equal the stored state (an axis within the
  deadzone of magnitude 0.25, or a button or axis held beyond the threshold), a rise
  that is then held emits exactly one down, a fall that then stays put emits exactly
  one up; an axis value of magnitude at most 0.25 samples as inactive in both directions
  and one beyond it as active in its direction; and every event names the control of its
  source and the player of its gamepad.
\<close>

theorem gamepad_edge_detection:
  "emitted (i, src) (snd (run_polls ps st)) = edges (stored_flag st i src) (samples i src ps)
   \<and> stored_flag (fst (run_polls ps st)) i src = last_or (stored_flag st i src) (samples i src ps)
   \<and> ((\<forall>s \<in> set (samples i src ps). s = stored_flag st i src) \<longrightarrow>
        emitted (i, src) (snd (run_polls ps st)) = [])
   \<and> (\<not> stored_flag st i src \<and> samples i src ps = True # replicate n True \<longrightarrow>
        emitted (i, src) (snd (run_polls ps st)) = [Down])
   \<and> (stored_flag st i src \<and> samples i src ps = False # replicate n False \<longrightarrow>
        emitted (i, src) (snd (run_polls ps st)) = [Up])
   \<and> (\<bar>axis_or_0 (axes gp) 0\<bar> \<le> 1 / 4 \<longrightarrow>
        sample_of (FromStick DirLeft) gp = [False] \<and> sample_of (FromStick DirRight) gp = [False])
   \<and> (\<bar>axis_or_0 (axes gp) 1\<bar> \<le> 1 / 4 \<longrightarrow>
        sample_of (FromStick DirUp) gp = [False] \<and> sample_of (FromStick DirDown) gp = [False])
   \<and> (axis_or_0 (axes gp) 0 < - (1 / 4) \<longrightarrow> sample_of (FromStick DirLeft) gp = [True])
   \<and> (1 / 4 < axis_or_0 (axes gp) 0 \<longrightarrow> sample_of (FromStick DirRight) gp = [True])
   \<and> (axis_or_0 (axes gp) 1 < - (1 / 4) \<longrightarrow> sample_of (FromStick DirUp) gp = [True])
   \<and> (1 / 4 < axis_or_0 (axes gp) 1 \<longrightarrow> sample_of (FromStick DirDown) gp = [True])
   \<and> (\<forall>te \<in> set (snd (run_polls ps st)). well_tagged te)"
proof -
  note r = run_polls_source[of i src ps st]
  have a: "(\<forall>s \<in> set (samples i src ps). s = stored_flag st i src) \<longrightarrow>
        emitted (i, src) (snd (run_polls ps st)) = []"
    using r edges_steady by auto
  have b: "\<not> stored_flag st i src \<and> samples i src ps = True # replicate n True \<longrightarrow>
        emitted (i, src) (snd (run_polls ps st)) = [Down]"
    using r edges_rise[of n] by auto
  have c: "stored_flag st i src \<and> samples i src ps = False # replicate n False \<longrightarrow>
        emitted (i, src) (snd (run_polls ps st)) = [Up]"
    using r edges_fall[of n] by auto
  show ?thesis
    using r a b c stick_deadzone[of gp] run_polls_tagged[of ps st] by blast
qed

theorem gamepad_edge_detection_witness:
  "\<not> stored_flag \<lparr>buttons_state = (\<lambda>i. None), axes_state = (\<lambda>i. None)\<rparr> 0 (FromStick DirLeft)
   \<and> samples 0 (FromStick DirLeft)
         [\<lparr>hasGamepad = True, poll_status = Running, poll_ref = Some 0,
           gps = [Some \<lparr>index = 0, buttons = [], axes = [- (1 / 2), 0]\<rparr>]\<rparr>,
          \<lparr>hasGamepad = True, poll_status = Running, poll_ref = Some 0,
           gps = [Some \<lparr>index = 0, buttons = [], axes = [- (3 / 5), 0]\<rparr>]\<rparr>] = [True, True]
   \<and> emitted (0, (FromStick DirLeft)) (snd (run_polls
         [\<lparr>hasGamepad = True, poll_status = Running, poll_ref = Some 0,
           gps = [Some \<lparr>index = 0, buttons = [], axes = [- (1 / 2), 0]\<rparr>]\<rparr>,
          \<lparr>hasGamepad = True, poll_status = Running, poll_ref = Some 0,
           gps = [Some \<lparr>index = 0, buttons = [], axes = [- (3 / 5), 0]\<rparr>]\<rparr>]
         \<lparr>buttons_state = (\<lambda>i. None), axes_state = (\<lambda>i. None)\<rparr>)) = [Down]
   \<and> samples 0 (FromStick DirLeft)
         [\<lparr>hasGamepad = True, poll_status = Running, poll_ref = Some 0,
           gps = [Some \<lparr>index = 0, buttons = [], axes = [1 / 10, 0]\<rparr>]\<rparr>,
          \<lparr>hasGamepad = True, poll_status = Running, poll_ref = Some 0,
           gps = [Some \<lparr>index = 0, buttons = [], axes = [- (1 / 4), 0]\<rparr>]\<rparr>] = [False, False]
   \<and> emitted (0, (FromStick DirLeft)) (snd (run_polls
         [\<lparr>hasGamepad = True, poll_status = Running, poll_ref = Some 0,
           gps = [Some \<lparr>index = 0, buttons = [], axes = [1 / 10, 0]\<rparr>]\<rparr>,
          \<lparr>hasGamepad = True, poll_status = Running, poll_ref = Some 0,
           gps = [Some \<lparr>index = 0, buttons = [], axes = [- (1 / 4), 0]\<rparr>]\<rparr>]
         \<lparr>buttons_state = (\<lambda>i. None), axes_state = (\<lambda>i. None)\<rparr>)) = []
   \<and> stored_flag \<lparr>buttons_state = (\<lambda>i. None),
          axes_state = (\<lambda>i. None)(0 \<mapsto> \<lparr>ax_up = False, ax_down = False, ax_left = True,
                                             ax_right = False\<rparr>)\<rparr> 0 (FromStick DirLeft)
   \<and> samples 0 (FromStick DirLeft)
         [\<lparr>hasGamepad = True, poll_status = Running, poll_ref = Some 0,
           gps = [Some \<lparr>index = 0, buttons = [], axes = [0, 0]\<rparr>]\<rparr>,
          \<lparr>hasGamepad = True, poll_status = Running, poll_ref = Some 0,
           gps = [Some \<lparr>index = 0, buttons = [], axes = [1 / 10, 0]\<rparr>]\<rparr>] = [False, False]
   \<and> emitted (0, (FromStick DirLeft)) (snd (run_polls
         [\<lparr>hasGamepad = True, poll_status = Running, poll_ref = Some 0,
           gps = [Some \<lparr>index = 0, buttons = [], axes = [0, 0]\<rparr>]\<rparr>,
          \<lparr>hasGamepad = True, poll_status = Running, poll_ref = Some 0,
           gps = [Some \<lparr>index = 0, buttons = [], axes = [1 / 10, 0]\<rparr>]\<rparr>]
         \<lparr>buttons_state = (\<lambda>i. None),
          axes_state = (\<lambda>i. None)(0 \<mapsto> \<lparr>ax_up = False, ax_down = False, ax_left = True,
                                             ax_right = False\<rparr>)\<rparr>)) = [Up]
   \<and> \<bar>axis_or_0 (axes \<lparr>index = 0, buttons = [], axes = [1 / 10, 0]\<rparr>) 0\<bar> \<le> 1 / 4
   \<and> sample_of (FromStick DirLeft) \<lparr>index = 0, buttons = [], axes = [1 / 10, 0]\<rparr> = [False]
   \<and> sample_of (FromStick DirRight) \<lparr>index = 0, buttons = [], axes = [1 / 10, 0]\<rparr> = [False]"
proof -
  let ?st0 = "\<lparr>buttons_state = (\<lambda>i. None), axes_state = (\<lambda>i. None)\<rparr>"
  let ?st1 = "\<lparr>buttons_state = (\<lambda>i. None),
          axes_state = (\<lambda>i. None)(0 \<mapsto> \<lparr>ax_up = False, ax_down = False, ax_left = True,
                                             ax_right = False\<rparr>)\<rparr>"
  let ?rise = "[\<lparr>hasGamepad = True, poll_status = Running, poll_ref = Some 0,
           gps = [Some \<lparr>index = 0, buttons = [], axes = [- (1 / 2), 0]\<rparr>]\<rparr>,
          \<lparr>hasGamepad = True, poll_status = Running, poll_ref = Some 0,
           gps = [Some \<lparr>index = 0, buttons = [], axes = [- (3 / 5), 0]\<rparr>]\<rparr>]"
  let ?steady = "[\<lparr>hasGamepad = True, poll_status = Running, poll_ref = Some 0,
           gps = [Some \<lparr>index = 0, buttons = [], axes = [1 / 10, 0]\<rparr>]\<rparr>,
          \<lparr>hasGamepad = True, poll_status = Running, poll_ref = Some 0,
           gps = [Some \<lparr>index = 0, buttons = [], axes = [- (1 / 4), 0]\<rparr>]\<rparr>]"
  let ?fall = "[\<lparr>hasGamepad = True, poll_status = Running, poll_ref = Some 0,
           gps = [Some \<lparr>index = 0, buttons = [], axes = [0, 0]\<rparr>]\<rparr>,
          \<lparr>hasGamepad = True, poll_status = Running, poll_ref = Some 0,
           gps = [Some \<lparr>index = 0, buttons = [], axes = [1 / 10, 0]\<rparr>]\<rparr>]"
  let ?pad = "\<lparr>index = 0, buttons = [], axes = [1 / 10, 0]\<rparr>"
  have s0: "\<not> stored_flag ?st0 0 (FromStick DirLeft)" by simp
  have s1: "stored_flag ?st1 0 (FromStick DirLeft)" by simp
  have r: "samples 0 (FromStick DirLeft) ?rise = [True, True]"
    by (simp add: samples_def poll_samples_def pad_samples_def axis_or_0_def DEADZONE_def)
  have q: "samples 0 (FromStick DirLeft) ?steady = [False, False]"
    by (simp add: samples_def poll_samples_def pad_samples_def axis_or_0_def DEADZONE_def)
  have f: "samples 0 (FromStick DirLeft) ?fall = [False, False]"
    by (simp add: samples_def poll_samples_def pad_samples_def axis_or_0_def DEADZONE_def)
  have d: "\<bar>axis_or_0 (axes ?pad) 0\<bar> \<le> 1 / 4" by (simp add: axis_or_0_def)
  have c1: "emitted (0, (FromStick DirLeft)) (snd (run_polls ?rise ?st0)) = [Down]"
    using gamepad_edge_detection
      [where i = 0 and src = "(FromStick DirLeft)" and ps = ?rise and st = ?st0 and n = "Suc 0"] s0 r
    by simp
  have c2: "emitted (0, (FromStick DirLeft)) (snd (run_polls ?steady ?st0)) = []"
    using gamepad_edge_detection
      [where i = 0 and src = "(FromStick DirLeft)" and ps = ?steady and st = ?st0] s0 q
    by simp
  have c3: "emitted (0, (FromStick DirLeft)) (snd (run_polls ?fall ?st1)) = [Up]"
    using gamepad_edge_detection
      [where i = 0 and src = "(FromStick DirLeft)" and ps = ?fall and st = ?st1 and n = "Suc 0"] s1 f
    by simp
  have c4: "sample_of (FromStick DirLeft) ?pad = [False]
      \<and> sample_of (FromStick DirRight) ?pad = [False]"
    using gamepad_edge_detection[where gp = ?pad] d by blast
  from s0 s1 r q f d c1 c2 c3 c4 show ?thesis by blast
qed

end
